theory Spec2Isabelle
  imports Complex_Main "HOL-Library.Char_ord" "HOL-Library.List_Lexorder"
begin

section \<open>Python values, exceptions and array helpers\<close>

text \<open>
  The module \<^verbatim>\<open>src/mplhep/plot.py\<close> is embedded function by function. Numbers are
  reals. Where the program adds a number into an element of an array (\<^verbatim>\<open>flow="sum"\<close>), the
  sum is the one of the array's dtype, which may round or wrap around: that addition is a
  parameter of the model. The division by a zero integral, which leaves the finite
  numbers, is an explicit value. Elsewhere rounding is not modelled.
  Exceptions are values of \<open>error\<close>; a function that can raise returns \<open>error + 'a\<close>.
\<close>

datatype error =
    ValueError string
  | AssertionError string
  | RuntimeError string
  | TypeError string
  | AttributeError string
  | IndexError
  | UnboundLocalError

definition rbind :: "error + 'a \<Rightarrow> ('a \<Rightarrow> error + 'b) \<Rightarrow> error + 'b" where
  "rbind m f = (case m of Inl e \<Rightarrow> Inl e | Inr x \<Rightarrow> f x)"

text \<open>\<^verbatim>\<open>xs[0]\<close> and \<^verbatim>\<open>xs[-1]\<close>: an IndexError on an empty array.\<close>

definition np_first :: "'a list \<Rightarrow> error + 'a" where
  "np_first xs = (case xs of [] \<Rightarrow> Inl IndexError | x # _ \<Rightarrow> Inr x)"

definition np_last :: "'a list \<Rightarrow> error + 'a" where
  "np_last xs = (if xs = [] then Inl IndexError else Inr (last xs))"

text \<open>
  \<^verbatim>\<open>xs[0] += d\<close> and \<^verbatim>\<open>xs[-1] += d\<close> on a copy of the array. \<open>add a d\<close> is what the
  assignment leaves in an element that held \<open>a\<close>: the sum as the dtype of the array stores
  it. For float64 it is the sum rounded to the nearest double, for int64 the sum modulo
  2^64; it is \<open>a + d\<close> wherever the dtype holds that sum exactly.
\<close>

type_synonym dtype_add = "real \<Rightarrow> real \<Rightarrow> real"

definition add_first :: "dtype_add \<Rightarrow> real list \<Rightarrow> real \<Rightarrow> error + real list" where
  "add_first add xs d = (if xs = [] then Inl IndexError else Inr (xs[0 := add (xs ! 0) d]))"

definition add_last :: "dtype_add \<Rightarrow> real list \<Rightarrow> real \<Rightarrow> error + real list" where
  "add_last add xs d =
     (if xs = [] then Inl IndexError
      else Inr (xs[length xs - 1 := add (xs ! (length xs - 1)) d]))"

text \<open>
  The addition of an int64 array, on entries that are whole numbers: the sum wraps around
  into the range from -2^63 to 2^63 - 1.
\<close>

definition int64_add :: dtype_add where
  "int64_add a d =
     real_of_int ((\<lfloor>a\<rfloor> + \<lfloor>d\<rfloor> + 2 ^ 63) mod 2 ^ 64 - 2 ^ 63)"

text \<open>
  The addition of a float64 array, for sums in the normal range: the sum is rounded to the
  nearest number with a significand of 53 bits, a tie going to the even significand.
\<close>

definition round_half_even :: "real \<Rightarrow> int" where
  "round_half_even q =
     (let f = \<lfloor>q\<rfloor>; r = q - real_of_int f
      in if r < 1 / 2 then f else if 1 / 2 < r then f + 1
         else if even f then f else f + 1)"

definition float64_round :: "real \<Rightarrow> real" where
  "float64_round x =
     (if x = 0 then 0
      else (let ulp = 2 powr (real_of_int \<lfloor>log 2 \<bar>x\<bar>\<rfloor> - 52)
            in real_of_int (round_half_even (x / ulp)) * ulp))"

definition float64_add :: dtype_add where
  "float64_add a d = float64_round (a + d)"

text \<open>\<^verbatim>\<open>np.diff\<close> of a one-dimensional array.\<close>

fun np_diff :: "real list \<Rightarrow> real list" where
  "np_diff (a # b # xs) = (b - a) # np_diff (b # xs)"
| "np_diff _ = []"

text \<open>
  \<^verbatim>\<open>np.mean\<close>. On an empty array numpy returns nan with a warning; the flow-bin size is
  only computed from axes with at least one bin, where the array is not empty.
\<close>

definition np_mean :: "real list \<Rightarrow> real" where
  "np_mean xs = sum_list xs / real (length xs)"

section \<open>Histogram inputs and the Plottable value object\<close>

text \<open>
  \<^verbatim>\<open>process_histogram_parts\<close> (utils.py) turns the argument \<^verbatim>\<open>H\<close> into histogram
  objects; the model starts from these objects. How an object exposes its flow bins is
  what lines 196-223 of \<^verbatim>\<open>histplot\<close> probe for: an axis with \<^verbatim>\<open>traits.underflow\<close> and
  \<^verbatim>\<open>traits.overflow\<close>, else a \<^verbatim>\<open>values\<close> method taking a \<^verbatim>\<open>flow\<close> argument, else nothing.
  \<open>h_add\<close> and \<open>h_var_add\<close> are the additions of the dtypes of \<^verbatim>\<open>h.values()\<close> and of
  \<^verbatim>\<open>h.variances()\<close>.
\<close>

datatype flow_support = NoFlow | Traits bool bool | FlowArg

record hist =
  h_values :: "real list"
  h_variances :: "real list option"
  h_flow :: flow_support
  h_values_flow :: "real list"
  h_variances_flow :: "real list"
  h_add :: dtype_add
  h_var_add :: dtype_add

text \<open>A well-formed histogram object has one variance per value, if it has variances.\<close>

definition wf_hist :: "hist \<Rightarrow> bool" where
  "wf_hist h =
     (case h_variances h of None \<Rightarrow> True | Some v \<Rightarrow> length v = length (h_values h))"

record flow_content =
  underflow :: real
  overflow :: real
  underflowv :: real
  overflowv :: real

text \<open>
  The non-finite results of numpy arithmetic: \<^verbatim>\<open>1.0 / np.float64(0.0)\<close> is inf (with a
  RuntimeWarning, no exception), and an array multiplied by it holds inf and nan.
\<close>

datatype npfloat = Finite real | NonFinite

text \<open>
  Modelled from the spec: the Plottable value object of utils.py, which is not part of
  the sources at hand ("ordered bin edges, per-bin values, optional per-bin variances,
  optional explicit asymmetric errors, scale/density flags"). \<open>p_finite\<close> is False once
  the values have been scaled by a non-finite factor: the entries are then inf or nan.
\<close>

record plottable =
  p_values :: "real list"
  p_edges :: "real list"
  p_variances :: "real list option"
  p_yerr :: "(real list \<times> real list) option"
  p_method :: "string option"
  p_density :: bool
  p_baseline :: "real list"
  p_finite :: bool

definition Plottable :: "real list \<Rightarrow> real list \<Rightarrow> real list option \<Rightarrow> plottable" where
  "Plottable v e var =
     \<lparr>p_values = v, p_edges = e, p_variances = var, p_yerr = None, p_method = None,
      p_density = False, p_baseline = map (\<lambda>_. 0) v,
      p_finite = True\<rparr>"

section \<open>histplot: flow bins (lines 187-257)\<close>

text \<open>Lines 193-223: the under- and overflow content of one histogram object.\<close>

definition flow_pair :: "bool \<Rightarrow> (real list \<Rightarrow> error + real) \<Rightarrow> hist \<Rightarrow> error + real \<times> real" where
  "flow_pair has_variances pick h =
     rbind (pick (h_values_flow h)) (\<lambda>c.
       if has_variances then rbind (pick (h_variances_flow h)) (\<lambda>cv. Inr (c, cv))
       else Inr (c, 0))"

definition get_flow :: "hist \<Rightarrow> error + flow_content" where
  "get_flow h =
     (let has_variances = (h_variances h \<noteq> None) in
      case h_flow h of
        Traits t_underflow t_overflow \<Rightarrow>
          rbind (if t_overflow then flow_pair has_variances np_last h else Inr (0, 0))
            (\<lambda>(ov, ovv).
          rbind (if t_underflow then flow_pair has_variances np_first h else Inr (0, 0))
            (\<lambda>(un, unv).
          Inr \<lparr>underflow = un, overflow = ov, underflowv = unv, overflowv = ovv\<rparr>))
      | FlowArg \<Rightarrow>
          if length (h_values h) + 2 = length (h_values_flow h) then
            rbind (np_first (h_values_flow h)) (\<lambda>un.
            rbind (np_last (h_values_flow h)) (\<lambda>ov.
            if has_variances then
              rbind (np_first (h_variances_flow h)) (\<lambda>unv.
              rbind (np_last (h_variances_flow h)) (\<lambda>ovv.
              Inr \<lparr>underflow = un, overflow = ov, underflowv = unv, overflowv = ovv\<rparr>))
            else Inr \<lparr>underflow = un, overflow = ov, underflowv = 0, overflowv = 0\<rparr>))
          else Inr \<lparr>underflow = 0, overflow = 0, underflowv = 0, overflowv = 0\<rparr>
      | NoFlow \<Rightarrow> Inr \<lparr>underflow = 0, overflow = 0, underflowv = 0, overflowv = 0\<rparr>)"

text \<open>Lines 231-233: the width of an appended flow bin.\<close>

definition flow_bin_size :: "real list \<Rightarrow> error + real" where
  "flow_bin_size final_bins =
     rbind (np_last final_bins) (\<lambda>hi.
     rbind (np_first final_bins) (\<lambda>lo.
     Inr (max (0.05 * (hi - lo)) (np_mean (np_diff final_bins)))))"

text \<open>Lines 230-245, \<^verbatim>\<open>flow == "show"\<close>: the flow bins become extra bins.\<close>

definition show_flow ::
  "real list \<Rightarrow> real list \<Rightarrow> real list option \<Rightarrow> flow_content \<Rightarrow> error + plottable" where
  "show_flow final_bins val variance fc =
     rbind (flow_bin_size final_bins) (\<lambda>width.
     let (bins1, val1, var1) =
           (if underflow fc > 0
            then ((hd final_bins - width) # final_bins, underflow fc # val,
                  map_option (\<lambda>v. underflowv fc # v) variance)
            else (final_bins, val, variance));
         (bins2, val2, var2) =
           (if overflow fc > 0
            then (bins1 @ [last bins1 + width], val1 @ [overflow fc],
                  map_option (\<lambda>v. v @ [overflowv fc]) var1)
            else (bins1, val1, var1))
     in Inr (Plottable val2 bins2 var2))"

text \<open>Lines 246-255, \<^verbatim>\<open>flow == "sum"\<close>: the flow content is added to the outer bins.\<close>

definition add_opt ::
  "(real list \<Rightarrow> real \<Rightarrow> error + real list) \<Rightarrow> real list option \<Rightarrow> real \<Rightarrow>
   error + real list option" where
  "add_opt add variance d =
     (case variance of None \<Rightarrow> Inr None
      | Some v \<Rightarrow> rbind (add v d) (\<lambda>v'. Inr (Some v')))"

definition sum_flow ::
  "dtype_add \<Rightarrow> dtype_add \<Rightarrow> real list \<Rightarrow> real list \<Rightarrow> real list option \<Rightarrow>
   flow_content \<Rightarrow> error + plottable" where
  "sum_flow add addv final_bins val variance fc =
     rbind (if underflow fc > 0
            then rbind (add_first add val (underflow fc)) (\<lambda>v.
                 rbind (add_opt (add_first addv) variance (underflowv fc))
                   (\<lambda>var. Inr (v, var)))
            else Inr (val, variance)) (\<lambda>(val1, var1).
     rbind (if overflow fc > 0
            then rbind (add_last add val1 (overflow fc)) (\<lambda>v.
                 rbind (add_opt (add_last addv) var1 (overflowv fc))
                   (\<lambda>var. Inr (v, var)))
            else Inr (val1, var1)) (\<lambda>(val2, var2).
     Inr (Plottable val2 final_bins var2)))"

text \<open>Lines 225-257: the plottable of one histogram under the flow policy.\<close>

definition plottable_of_flow ::
  "dtype_add \<Rightarrow> dtype_add \<Rightarrow> string option \<Rightarrow> real list \<Rightarrow> real list \<Rightarrow>
   real list option \<Rightarrow> flow_content \<Rightarrow> error + plottable" where
  "plottable_of_flow add addv flow final_bins val variance fc =
     (if flow = Some ''none'' then Inr (Plottable val final_bins variance)
      else if flow = Some ''hint'' then Inr (Plottable val final_bins variance)
      else if flow = Some ''show'' then show_flow final_bins val variance fc
      else if flow = Some ''sum'' then sum_flow add addv final_bins val variance fc
      else Inr (Plottable val final_bins variance))"

definition set_plottable :: "string option \<Rightarrow> real list \<Rightarrow> hist \<Rightarrow> error + plottable" where
  "set_plottable flow final_bins h =
     rbind (get_flow h) (\<lambda>fc.
       plottable_of_flow (h_add h) (h_var_add h) flow final_bins
         (h_values h) (h_variances h) fc)"

text \<open>Lines 189-257: the loop over the histogram objects.\<close>

fun set_plottables :: "string option \<Rightarrow> real list \<Rightarrow> hist list \<Rightarrow> error + plottable list" where
  "set_plottables flow final_bins [] = Inr []"
| "set_plottables flow final_bins (h # hs) =
     rbind (set_plottable flow final_bins h) (\<lambda>p.
     rbind (set_plottables flow final_bins hs) (\<lambda>ps. Inr (p # ps)))"

section \<open>histplot: external variances, labels and keyword arguments (lines 259-299)\<close>

text \<open>
  A numpy array is its shape and its entries in row-major order. \<open>rows_of k m xs\<close> reads
  \<open>xs\<close> as \<open>k\<close> rows of \<open>m\<close> entries.
\<close>

record ndarray =
  nd_shape :: "nat list"
  nd_data :: "real list"

definition rows_of :: "nat \<Rightarrow> nat \<Rightarrow> 'a list \<Rightarrow> 'a list list" where
  "rows_of k m xs = map (\<lambda>i. take m (drop (i * m) xs)) [0..<k]"

text \<open>\<^verbatim>\<open>a.reshape(dims)\<close> with non-negative dimensions.\<close>

definition np_reshape :: "nat list \<Rightarrow> ndarray \<Rightarrow> error + ndarray" where
  "np_reshape dims a =
     (if prod_list dims = length (nd_data a)
      then Inr \<lparr>nd_shape = dims, nd_data = nd_data a\<rparr>
      else Inl (ValueError ''cannot reshape array''))"

text \<open>
  \<^verbatim>\<open>w2.reshape(n, m)\<close> where \<open>m\<close> is \<^verbatim>\<open>len(final_bins) - 1\<close>: for an empty \<^verbatim>\<open>final_bins\<close>
  this is -1, which numpy reads as "infer this dimension".
\<close>

definition np_reshape2 :: "nat \<Rightarrow> int \<Rightarrow> ndarray \<Rightarrow> error + ndarray" where
  "np_reshape2 n m a =
     (let sz = length (nd_data a) in
      if m < 0 then
        (if n = 0 \<or> sz mod n \<noteq> 0 then Inl (ValueError ''cannot reshape array'')
         else Inr \<lparr>nd_shape = [n, sz div n], nd_data = nd_data a\<rparr>)
      else np_reshape [n, nat m] a)"

text \<open>\<^verbatim>\<open>np.tile(a, reps)\<close> for an array of one or more dimensions: the last axis is repeated.\<close>

definition np_tile :: "nat \<Rightarrow> ndarray \<Rightarrow> ndarray" where
  "np_tile reps a =
     (let m = last (nd_shape a); k = prod_list (butlast (nd_shape a)) in
      \<lparr>nd_shape = butlast (nd_shape a) @ [reps * m],
       nd_data = concat (map (\<lambda>row. concat (replicate reps row)) (rows_of k m (nd_data a)))\<rparr>)"

text \<open>\<^verbatim>\<open>np.ones((n, m)) * c\<close>; a negative dimension is a ValueError.\<close>

definition np_full2 :: "nat \<Rightarrow> int \<Rightarrow> real \<Rightarrow> error + ndarray" where
  "np_full2 n m c =
     (if m < 0 then Inl (ValueError ''negative dimensions are not allowed'')
      else Inr \<lparr>nd_shape = [n, nat m], nd_data = replicate (n * nat m) c\<rparr>)"

text \<open>
  Lines 259-264: \<^verbatim>\<open>w2\<close> replaces the variances of every plottable. The assignment to the
  attributes of Plottable is part of the model of that class.
\<close>

fun assign_w2 :: "real list list \<Rightarrow> string option \<Rightarrow> plottable list \<Rightarrow> plottable list" where
  "assign_w2 (r # rs) w2method (p # ps) =
     p\<lparr>p_variances := Some r, p_method := w2method\<rparr> # assign_w2 rs w2method ps"
| "assign_w2 _ w2method ps = ps"

definition apply_w2 ::
  "ndarray option \<Rightarrow> string option \<Rightarrow> real list \<Rightarrow> plottable list \<Rightarrow> error + plottable list" where
  "apply_w2 w2 w2method final_bins plottables =
     (case w2 of
        None \<Rightarrow> Inr plottables
      | Some a \<Rightarrow>
          rbind (np_reshape2 (length plottables) (int (length final_bins) - 1) a) (\<lambda>r.
          Inr (assign_w2 (rows_of (nd_shape r ! 0) (nd_shape r ! 1) (nd_data r))
                 w2method plottables)))"

text \<open>
  Lines 269-277: one label per series. A label that is neither None, a string nor an
  iterable is given by its \<^verbatim>\<open>str()\<close> rendering. An entry of an iterable is a string, or a
  number together with its \<^verbatim>\<open>str()\<close> rendering.
\<close>

datatype label_item = LabStr string | LabNum real string

fun str_of :: "label_item \<Rightarrow> string" where
  "str_of (LabStr s) = s"
| "str_of (LabNum x s) = s"

fun is_number :: "label_item \<Rightarrow> bool" where
  "is_number (LabStr s) = False"
| "is_number (LabNum x s) = True"

fun num_of :: "label_item \<Rightarrow> real" where
  "num_of (LabStr s) = 0"
| "num_of (LabNum x s) = x"

datatype label_arg = LNone | LStr string | LScalar string | LList "label_item list"

definition resolve_labels :: "nat \<Rightarrow> label_arg \<Rightarrow> string option list" where
  "resolve_labels n label =
     (case label of
        LNone \<Rightarrow> replicate n None
      | LStr s \<Rightarrow> replicate n (Some s)
      | LScalar s \<Rightarrow> replicate n (Some s)
      | LList ls \<Rightarrow> map (\<lambda>lab. Some (str_of lab)) ls)"

text \<open>Lines 279-299: the keyword arguments are split into one dictionary per series.\<close>

datatype pyval =
    PNone
  | PBool bool
  | PInt int
  | PFloat real
  | PStr string
  | PTuple "pyval list"
  | PList "pyval list"

type_synonym kwdict = "string \<rightharpoonup> pyval"

fun iterable_not_string :: "pyval \<Rightarrow> bool" where
  "iterable_not_string (PTuple _) = True"
| "iterable_not_string (PList _) = True"
| "iterable_not_string _ = False"

text \<open>\<^verbatim>\<open>isinstance(x, int) or isinstance(x, float)\<close>; a Python bool is an int.\<close>

fun int_or_float :: "pyval \<Rightarrow> bool" where
  "int_or_float (PInt _) = True"
| "int_or_float (PFloat _) = True"
| "int_or_float (PBool _) = True"
| "int_or_float _ = False"

fun numeric_tuple :: "pyval \<Rightarrow> bool" where
  "numeric_tuple (PTuple xs) = list_all int_or_float xs"
| "numeric_tuple _ = False"

fun items :: "pyval \<Rightarrow> pyval list" where
  "items (PTuple xs) = xs"
| "items (PList xs) = xs"
| "items _ = []"

text \<open>
  The values that reach the else branch of line 294 and are handed out item by item, and
  what the loop body stores for series \<open>j\<close> under one keyword: nothing when such a value has
  no item of that index.
\<close>

definition fanned :: "pyval \<Rightarrow> bool" where
  "fanned v = (iterable_not_string v \<and> \<not> numeric_tuple v)"

definition kw_entry :: "pyval \<Rightarrow> nat \<Rightarrow> pyval option" where
  "kw_entry v j =
     (if fanned v then (if j < length (items v) then Some (items v ! j) else None)
      else Some v)"

text \<open>Line 295-296: \<^verbatim>\<open>for i, kw in enumerate(v): _chunked_kwargs[i][kwarg] = kw\<close>.\<close>

fun fan_out :: "string \<Rightarrow> pyval list \<Rightarrow> nat \<Rightarrow> kwdict list \<Rightarrow> error + kwdict list" where
  "fan_out k [] i cs = Inr cs"
| "fan_out k (v # vs) i cs =
     (if i < length cs then fan_out k vs (Suc i) (cs[i := (cs ! i)(k \<mapsto> v)])
      else Inl IndexError)"

definition chunk_kwarg :: "string \<Rightarrow> pyval \<Rightarrow> kwdict list \<Rightarrow> error + kwdict list" where
  "chunk_kwarg k v cs =
     (if iterable_not_string v then
        (if numeric_tuple v then Inr (map (\<lambda>c. c(k \<mapsto> v)) cs)
         else fan_out k (items v) 0 cs)
      else Inr (map (\<lambda>c. c(k \<mapsto> v)) cs))"

fun chunk_loop :: "(string \<times> pyval) list \<Rightarrow> kwdict list \<Rightarrow> error + kwdict list" where
  "chunk_loop [] cs = Inr cs"
| "chunk_loop ((k, v) # kws) cs = rbind (chunk_kwarg k v cs) (chunk_loop kws)"

definition chunk_kwargs :: "nat \<Rightarrow> (string \<times> pyval) list \<Rightarrow> error + kwdict list" where
  "chunk_kwargs n kwargs = chunk_loop kwargs (replicate n Map.empty)"

section \<open>histplot: external errors (lines 301-343)\<close>

datatype yerr_arg = YNone | YBool bool | YNumber real | YArray ndarray

text \<open>Lines 304-315: an array is taken as it is, a number fills an array, True is automatic.\<close>

definition init_yerr :: "nat \<Rightarrow> real list \<Rightarrow> yerr_arg \<Rightarrow> error + ndarray option" where
  "init_yerr n final_bins yerr =
     (case yerr of
        YArray a \<Rightarrow> Inr (Some a)
      | YNumber c \<Rightarrow> rbind (np_full2 n (int (length final_bins) - 1) c) (\<lambda>a. Inr (Some a))
      | YBool b \<Rightarrow> Inr None
      | YNone \<Rightarrow> Inr None)"

text \<open>Lines 319-339: the array is brought to the shape (series, 2, bins).\<close>

definition broadcast_yerr :: "nat \<Rightarrow> ndarray \<Rightarrow> error + ndarray" where
  "broadcast_yerr n a =
     (let sh = nd_shape a; ndim = length sh in
      if ndim = 3 then Inr a
      else if ndim = 2 \<and> n = 1 then
        (if sh ! 0 = 2 then np_reshape [n, 2, sh ! 1] a
         else if sh ! 0 = 1 then np_reshape [n, 2, sh ! 1] (np_tile 2 a)
         else Inl (ValueError ''yerr format is not understood''))
      else if ndim = 2 then np_reshape [n, 2, sh ! 1] (np_tile 2 a)
      else if ndim = 1 then np_reshape [n, 2, sh ! 0] (np_tile (2 * n) a)
      else Inl (ValueError ''yerr format is not understood''))"

definition resolve_yerr :: "nat \<Rightarrow> real list \<Rightarrow> yerr_arg \<Rightarrow> error + ndarray option" where
  "resolve_yerr n final_bins yerr =
     rbind (init_yerr n final_bins yerr) (\<lambda>y.
       case y of None \<Rightarrow> Inr None
       | Some a \<Rightarrow> rbind (broadcast_yerr n a) (\<lambda>b. Inr (Some b)))"

text \<open>Iterating a three-dimensional array: one list of rows per entry of the first axis.\<close>

definition yerr_series :: "ndarray \<Rightarrow> real list list list" where
  "yerr_series a =
     (let sh = nd_shape a in
      map (rows_of (sh ! 1) (sh ! 2)) (rows_of (sh ! 0) (sh ! 1 * sh ! 2) (nd_data a)))"

text \<open>
  Modelled from the spec: \<^verbatim>\<open>Plottable.fixed_errors\<close> of utils.py ("optional explicit
  asymmetric errors"): it stores the lower and the upper error of every bin.
\<close>

definition fixed_errors :: "plottable \<Rightarrow> real list \<Rightarrow> real list \<Rightarrow> plottable" where
  "fixed_errors p lo hi = p\<lparr>p_yerr := Some (lo, hi)\<rparr>"

text \<open>
  Lines 342-343: \<^verbatim>\<open>for yrs, _plottable in zip(_yerr, plottables): _plottable.fixed_errors(*yrs)\<close>.
  The call takes exactly two arrays; \<^verbatim>\<open>zip\<close> stops at the shorter sequence.
\<close>

fun attach_yerr :: "real list list list \<Rightarrow> plottable list \<Rightarrow> error + plottable list" where
  "attach_yerr (yrs # ys) (p # ps) =
     (case yrs of
        [lo, hi] \<Rightarrow> rbind (attach_yerr ys ps) (\<lambda>ps'. Inr (fixed_errors p lo hi # ps'))
      | _ \<Rightarrow> Inl (TypeError ''fixed_errors() takes 3 positional arguments''))"
| "attach_yerr _ ps = Inr ps"

definition apply_yerr ::
  "real list \<Rightarrow> yerr_arg \<Rightarrow> plottable list \<Rightarrow> error + plottable list" where
  "apply_yerr final_bins yerr plottables =
     rbind (resolve_yerr (length plottables) final_bins yerr) (\<lambda>y.
       case y of None \<Rightarrow> Inr plottables
       | Some a \<Rightarrow> attach_yerr (yerr_series a) plottables)"

section \<open>histplot: sorting (lines 345-365)\<close>

text \<open>\<^verbatim>\<open>str.split("_")\<close>.\<close>

fun split_us :: "string \<Rightarrow> string list" where
  "split_us [] = [[]]"
| "split_us (c # cs) =
     (if c = CHR ''_'' then [] # split_us cs
      else (case split_us cs of w # ws \<Rightarrow> (c # w) # ws | [] \<Rightarrow> [[c]]))"

text \<open>
  \<^verbatim>\<open>np.argsort\<close> returns indices that put the keys in ascending order. Its default sort
  is not stable: which of two equal keys comes first is not fixed by the program. The
  function is therefore a parameter of the model, one for arrays of strings and one for
  arrays of numbers, and \<open>is_argsort\<close> is all that is known of it: the result is a
  permutation of the indices along which the keys ascend.
\<close>

record argsorts =
  argsort_str :: "string list \<Rightarrow> nat list"
  argsort_num :: "real list \<Rightarrow> nat list"

definition is_argsort :: "('a::linorder list \<Rightarrow> nat list) \<Rightarrow> bool" where
  "is_argsort f =
     (\<forall>keys. distinct (f keys) \<and> set (f keys) = {0..<length keys} \<and>
             sorted (map (\<lambda>i. keys ! i) (f keys)))"

text \<open>One such function: the stable sort, under which equal keys keep their order.\<close>

definition stable_argsort :: "'a::linorder list \<Rightarrow> nat list" where
  "stable_argsort keys = sort_key (\<lambda>i. keys ! i) [0..<length keys]"

definition stable_argsorts :: argsorts where
  "stable_argsorts = \<lparr>argsort_str = stable_argsort, argsort_num = stable_argsort\<rparr>"

text \<open>
  Line 349 sorts the argument \<^verbatim>\<open>label\<close> itself, not the resolved list \<^verbatim>\<open>_labels\<close>. numpy
  reads None and a single string as an array without dimensions, whose argsort is \<^verbatim>\<open>[0]\<close>.
  A list of numbers is an array of numbers and is sorted by value; a list that holds a
  string is an array of strings, a number in it standing as its rendering.
\<close>

definition argsort_label :: "argsorts \<Rightarrow> label_arg \<Rightarrow> nat list" where
  "argsort_label asort label =
     (case label of
        LList ls \<Rightarrow>
          if list_all is_number ls then argsort_num asort (map num_of ls)
          else argsort_str asort (map str_of ls)
      | _ \<Rightarrow> [0])"

text \<open>\<^verbatim>\<open>xs[i]\<close> for a Python integer: negative indices count from the end.\<close>

definition py_index :: "'a list \<Rightarrow> int \<Rightarrow> error + 'a" where
  "py_index xs i =
     (let n = int (length xs); j = (if i < 0 then n + i else i)
      in if 0 \<le> j \<and> j < n then Inr (xs ! nat j) else Inl IndexError)"

text \<open>\<^verbatim>\<open>[xs[ix] for ix in order]\<close>.\<close>

fun take_order :: "'a list \<Rightarrow> int list \<Rightarrow> error + 'a list" where
  "take_order xs [] = Inr []"
| "take_order xs (i # order) =
     rbind (py_index xs i) (\<lambda>x.
     rbind (take_order xs order) (\<lambda>rest. Inr (x # rest)))"

datatype sort_arg = SortStr string | SortIdx "int list" | SortOther

text \<open>
  Lines 347-362. A selector that names neither labels nor yields leaves \<^verbatim>\<open>order\<close>
  unassigned, and its first use raises UnboundLocalError.
\<close>

definition sort_order ::
  "argsorts \<Rightarrow> sort_arg \<Rightarrow> label_arg \<Rightarrow> plottable list \<Rightarrow> error + int list" where
  "sort_order asort srt label plottables =
     (case srt of
        SortStr s \<Rightarrow>
          (let parts = split_us s;
               order =
                 (if hd parts \<in> set [''l'', ''label''] then Some (argsort_label asort label)
                  else if hd parts \<in> set [''y'', ''yield'']
                    then Some (argsort_num asort
                                 (map (\<lambda>h. sum_list (p_values h)) plottables))
                  else None)
           in case order of
                None \<Rightarrow> Inl UnboundLocalError
              | Some ord \<Rightarrow>
                  if length parts = 2 \<and> parts ! 1 = ''r'' then Inr (map int (rev ord))
                  else Inr (map int ord))
      | SortIdx ix \<Rightarrow>
          if length ix \<noteq> length plottables
          then Inl (ValueError ''Sort indexing array is of the wrong size'')
          else Inr ix
      | SortOther \<Rightarrow> Inl (ValueError ''Sort type not understood.''))"

type_synonym series = "plottable list \<times> kwdict list \<times> string option list"

definition sort_series ::
  "argsorts \<Rightarrow> sort_arg option \<Rightarrow> label_arg \<Rightarrow> series \<Rightarrow> error + series" where
  "sort_series asort srt label s =
     (case srt of
        None \<Rightarrow> Inr s
      | Some so \<Rightarrow>
          (case s of (plottables, chunked_kwargs, labels) \<Rightarrow>
             rbind (sort_order asort so label plottables) (\<lambda>order.
             rbind (take_order plottables order) (\<lambda>ps.
             rbind (take_order chunked_kwargs order) (\<lambda>ks.
             rbind (take_order labels order) (\<lambda>ls. Inr (ps, ks, ls)))))))"

section \<open>histplot: density, bin-width normalisation and stacking (lines 367-392)\<close>

text \<open>\<^verbatim>\<open>1.0 / s\<close> for a numpy float: inf, not an exception, when \<open>s\<close> is zero.\<close>

definition np_recip :: "real \<Rightarrow> npfloat" where
  "np_recip s = (if s = 0 then NonFinite else Finite (1 / s))"

text \<open>
  Elementwise product of two one-dimensional arrays with numpy's broadcasting: equal
  lengths, or one of them of length one.
\<close>

definition np_mul :: "real list \<Rightarrow> real list \<Rightarrow> error + real list" where
  "np_mul xs ys =
     (if length xs = length ys then Inr (map2 (*) xs ys)
      else if length xs = 1 then Inr (map (\<lambda>y. hd xs * y) ys)
      else if length ys = 1 then Inr (map (\<lambda>x. x * hd ys) xs)
      else Inl (ValueError ''operands could not be broadcast together''))"

text \<open>
  \<^verbatim>\<open>np.sum(np.array([p.values for p in plottables]), axis=0)\<close>: the sum of the series, bin
  by bin. Series of different lengths do not form an array. Without any series the sum is
  the scalar zero, which broadcasts like an array of length one.
\<close>

definition total_values :: "real list list \<Rightarrow> error + real list" where
  "total_values rows =
     (case rows of
        [] \<Rightarrow> Inr [0]
      | r # rs \<Rightarrow>
          if list_all (\<lambda>r'. length r' = length r) rs
          then Inr (map (\<lambda>j. sum_list (map (\<lambda>r'. r' ! j) rows)) [0..<length r])
          else Inl (ValueError ''inhomogeneous shape''))"

text \<open>
  Modelled from the spec: \<^verbatim>\<open>Plottable.flat_scale\<close> of utils.py, which is not part of the
  sources at hand: every value is multiplied by the factor. What the method does to the
  variances and to the explicit errors is not described; they are left as they are, and
  no statement below reads them after a scaling.
\<close>

definition flat_scale :: "plottable \<Rightarrow> npfloat \<Rightarrow> plottable" where
  "flat_scale p c =
     (case c of
        NonFinite \<Rightarrow> p\<lparr>p_finite := False\<rparr>
      | Finite f \<Rightarrow> p\<lparr>p_values := map (\<lambda>v. v * f) (p_values p)\<rparr>)"

text \<open>The integral of a series: the sum of value times bin width.\<close>

definition integral :: "real list \<Rightarrow> real list \<Rightarrow> real" where
  "integral edges vals = sum_list (map2 (*) (np_diff edges) vals)"


text \<open>
  Modelled from the spec: the \<^verbatim>\<open>density\<close> setter of Plottable (utils.py). The docstring of
  \<^verbatim>\<open>histplot\<close> describes it: "convert sum weights to probability density (i.e. integrates
  to 1 over domain of axis)"; the series is scaled by the inverse of its own integral.
\<close>

definition set_density :: "plottable \<Rightarrow> plottable" where
  "set_density p =
     (flat_scale p (np_recip (integral (p_edges p) (p_values p))))\<lparr>p_density := True\<rparr>"

text \<open>
  Modelled from the spec: \<^verbatim>\<open>Plottable.binwnorm\<close> of utils.py ("rescaling each bin's value
  by a factor related to its width"): every value is divided by the width of its bin.
\<close>

definition binwnorm_p :: "plottable \<Rightarrow> plottable" where
  "binwnorm_p p =
     (if list_ex (\<lambda>w. w = 0) (np_diff (p_edges p)) then p\<lparr>p_finite := False\<rparr>
      else p\<lparr>p_values := map2 (\<lambda>v w. v / w) (p_values p) (np_diff (p_edges p))\<rparr>)"

text \<open>
  Lines 369-386. \<^verbatim>\<open>binwnorm\<close> is the float of the docstring; \<^verbatim>\<open>np.broadcast_to\<close> hands the
  same factor to every series.
\<close>

definition normalise ::
  "bool \<Rightarrow> bool \<Rightarrow> real option \<Rightarrow> real list \<Rightarrow> plottable list \<Rightarrow> error + plottable list" where
  "normalise density stack binwnorm final_bins plottables =
     (if density \<and> binwnorm \<noteq> None then Inl (ValueError ''Can only set density or binwnorm.'')
      else if density then
        (if stack then
           rbind (total_values (map p_values plottables)) (\<lambda>total.
           rbind (np_mul (np_diff final_bins) total) (\<lambda>prods.
           Inr (map (\<lambda>p. flat_scale p (np_recip (sum_list prods))) plottables)))
         else Inr (map set_density plottables))
      else (case binwnorm of
              None \<Rightarrow> Inr plottables
            | Some nrm \<Rightarrow> Inr (map (\<lambda>p. binwnorm_p (flat_scale p (Finite nrm))) plottables)))"

text \<open>
  Modelled from the spec: \<^verbatim>\<open>stack\<close> of utils.py ("cumulative sum across series, each series
  drawn as the increment"; "a cumulative top series equal to the elementwise sum of all
  input series"). The first series is left as it is. Every later series gets as baseline
  the sum of the series before it, and as values that baseline plus its own values: the
  values of the last series are the sum of all series, and values minus baseline is what
  the series held before.
\<close>

fun stack_from :: "real list \<Rightarrow> plottable list \<Rightarrow> plottable list" where
  "stack_from base [] = []"
| "stack_from base (p # ps) =
     p\<lparr>p_values := map2 (+) base (p_values p), p_baseline := base\<rparr> #
     stack_from (map2 (+) base (p_values p)) ps"

definition stack_fun :: "plottable list \<Rightarrow> plottable list" where
  "stack_fun ps = (case ps of [] \<Rightarrow> [] | p # rest \<Rightarrow> p # stack_from (p_values p) rest)"

text \<open>Lines 388-392.\<close>

definition stack_stage :: "bool \<Rightarrow> plottable list \<Rightarrow> plottable list" where
  "stack_stage stack plottables =
     (if stack \<and> length plottables > 1 then stack_fun plottables else plottables)"

section \<open>histplot: argument checks, drawing and the whole call (lines 150-495)\<close>

text \<open>
  What is issued to the axes. \<open>Stairs\<close> carries the plottable, the legend label, the fill
  flag and the keyword arguments of the series; the style defaults that
  \<^verbatim>\<open>soft_update_kwargs\<close> adds from matplotlib's global rcParams are not part of the model.
\<close>

datatype edge = XLo | XHi | YLo | YHi

datatype draw_call =
    Stairs plottable "string option" bool kwdict
  | StairBand plottable "string option" kwdict
  | Errorbar plottable "string option" kwdict
  | LegendErrorbar "string option"
  | Pcolormesh "real list" "real list" "real option list list"
  | HintLine edge real
  | HintMarker edge

text \<open>
  The arguments of a call. \<open>a_hists\<close> is what \<^verbatim>\<open>process_histogram_parts(H, bins)\<close> returns
  and \<open>a_final_bins\<close> the edges that \<^verbatim>\<open>get_plottable_protocol_bins\<close> reads from the first
  histogram (both from utils.py). \<open>a_ax_ok\<close> says that \<^verbatim>\<open>ax\<close> is None or an Axes object.
  \<open>a_argsort\<close> is not an argument: it is the \<^verbatim>\<open>np.argsort\<close> of the run.
\<close>

record histplot_args =
  a_hists :: "hist list"
  a_final_bins :: "real list"
  a_ax_ok :: bool
  a_yerr :: yerr_arg
  a_w2 :: "ndarray option"
  a_w2method :: "string option"
  a_stack :: bool
  a_density :: bool
  a_binwnorm :: "real option"
  a_histtype :: string
  a_label :: label_arg
  a_sort :: "sort_arg option"
  a_flow :: "string option"
  a_kwargs :: "(string \<times> pyval) list"
  a_argsort :: argsorts

definition allowed_histtype :: "string list" where
  "allowed_histtype = [''fill'', ''step'', ''errorbar'', ''band'']"

definition allowed_flow :: "string list" where
  "allowed_flow = [''show'', ''sum'', ''hint'', ''none'']"

text \<open>Lines 150-166. The assertion messages are kept without their inner quotes.\<close>

definition check_args :: "histplot_args \<Rightarrow> error + unit" where
  "check_args args =
     (if \<not> a_ax_ok args then Inl (ValueError ''ax must be a matplotlib Axes object'')
      else if a_histtype args \<notin> set allowed_histtype
        then Inl (AssertionError ''Select histtype from: [fill, step, errorbar, band]'')
      else if \<not> (case a_flow args of None \<Rightarrow> True | Some f \<Rightarrow> f \<in> set allowed_flow)
        then Inl (AssertionError ''flow must be show, sum, hint, or none'')
      else Inr ())"

text \<open>Lines 174-264: \<^verbatim>\<open>hists[0]\<close> must exist; then the plottables and \<^verbatim>\<open>w2\<close>.\<close>

definition stage_plottables :: "histplot_args \<Rightarrow> error + plottable list" where
  "stage_plottables args =
     rbind (check_args args) (\<lambda>_.
     if a_hists args = [] then Inl IndexError
     else
       rbind (set_plottables (a_flow args) (a_final_bins args) (a_hists args)) (\<lambda>ps.
       apply_w2 (a_w2 args) (a_w2method args) (a_final_bins args) ps))"

text \<open>Lines 266-365: the exclusive options, labels, keyword arguments, errors and order.\<close>

definition stage_series :: "histplot_args \<Rightarrow> error + series" where
  "stage_series args =
     rbind (stage_plottables args) (\<lambda>ps.
     if a_w2 args \<noteq> None \<and> a_yerr args \<noteq> YNone
     then Inl (ValueError ''Can only supply errors or w2'')
     else
       rbind (chunk_kwargs (length ps) (a_kwargs args)) (\<lambda>cks.
       rbind (apply_yerr (a_final_bins args) (a_yerr args) ps) (\<lambda>ps'.
       sort_series (a_argsort args) (a_sort args) (a_label args)
         (ps', cks, resolve_labels (length ps) (a_label args)))))"

text \<open>Lines 367-392.\<close>

definition stage_normalised :: "histplot_args \<Rightarrow> error + series" where
  "stage_normalised args =
     rbind (stage_series args) (\<lambda>(ps, cks, ls).
     rbind (normalise (a_density args) (a_stack args) (a_binwnorm args) (a_final_bins args) ps)
       (\<lambda>ps'. Inr (stack_stage (a_stack args) ps', cks, ls)))"

text \<open>Lines 399-402.\<close>

definition do_errors :: "yerr_arg \<Rightarrow> ndarray option \<Rightarrow> plottable \<Rightarrow> bool" where
  "do_errors yerr w2 p =
     (yerr \<noteq> YBool False \<and> ((yerr \<noteq> YNone \<or> w2 \<noteq> None) \<or> p_variances p \<noteq> None))"

text \<open>Lines 397-495: what one series issues, by \<^verbatim>\<open>histtype\<close>.\<close>

definition draw_one ::
  "string \<Rightarrow> yerr_arg \<Rightarrow> ndarray option \<Rightarrow> plottable \<Rightarrow> string option \<Rightarrow> kwdict \<Rightarrow>
   draw_call list" where
  "draw_one histtype yerr w2 p l k =
     (if histtype = ''step'' then
        (if do_errors yerr w2 p
         then [Stairs p None False k, Errorbar p None k, LegendErrorbar l]
         else [Stairs p l False k])
      else if histtype = ''fill'' then [Stairs p l True k]
      else if histtype = ''band'' then [StairBand p l k]
      else if histtype = ''errorbar'' then [Errorbar p l k]
      else [])"

text \<open>
  The loop \<^verbatim>\<open>for i in range(len(plottables))\<close> reads \<^verbatim>\<open>_chunked_kwargs[i]\<close> and
  \<^verbatim>\<open>_labels[i]\<close>; a list that is too short raises IndexError after the earlier series
  have been drawn. The result is what was issued and the exception, if any.
\<close>

fun draw_loop ::
  "(plottable \<Rightarrow> string option \<Rightarrow> kwdict \<Rightarrow> draw_call list) \<Rightarrow> plottable list \<Rightarrow>
   kwdict list \<Rightarrow> string option list \<Rightarrow> draw_call list \<times> error option" where
  "draw_loop f [] ks ls = ([], None)"
| "draw_loop f (p # ps) (k # ks) (l # ls) =
     (case draw_loop f ps ks ls of (t, e) \<Rightarrow> (f p l k @ t, e))"
| "draw_loop f (p # ps) ks ls = ([], Some IndexError)"

text \<open>
  Lines 396-495; after the loop \<^verbatim>\<open>_artist\<close> is unassigned when no series was drawn.
\<close>

definition draw_series :: "histplot_args \<Rightarrow> series \<Rightarrow> draw_call list \<times> error option" where
  "draw_series args s =
     (case s of (ps, cks, ls) \<Rightarrow>
        (case draw_loop (draw_one (a_histtype args) (a_yerr args) (a_w2 args)) ps cks ls of
           (t, Some e) \<Rightarrow> (t, Some e)
         | (t, None) \<Rightarrow> if ps = [] then (t, Some UnboundLocalError) else (t, None)))"

text \<open>
  \<^verbatim>\<open>histplot\<close> up to the end of the drawing loop: the calls issued to the axes, and the
  exception that ended the call, if any. The tick, axis-label and flow-marker styling
  that follows the loop (lines 497-606) is not modelled.
\<close>

definition histplot :: "histplot_args \<Rightarrow> draw_call list \<times> error option" where
  "histplot args =
     (case stage_normalised args of
        Inl e \<Rightarrow> ([], Some e)
      | Inr s \<Rightarrow> draw_series args s)"

section \<open>hist2dplot (lines 611-928)\<close>

text \<open>
  A two-dimensional array is the list of its rows; the first index is the x bin.
  \<open>h2_flow_arg\<close> says that the \<^verbatim>\<open>values\<close> method of the histogram takes a \<^verbatim>\<open>flow\<close>
  argument, \<open>h2_values_flow\<close> is \<^verbatim>\<open>h.values(flow=True)\<close>, and \<open>h2_padded\<close> is the result of
  \<^verbatim>\<open>to_padded2d(h)\<close> of utils.py: the values with one flow row and one flow column on
  every side.
\<close>

record hist2d =
  h2_values :: "real list list"
  h2_xbins :: "real list"
  h2_ybins :: "real list"
  h2_flow_arg :: bool
  h2_values_flow :: "real list list"
  h2_padded :: "real list list"

record hist2dplot_args =
  b_hist :: hist2d
  b_ax_ok :: bool
  b_has_figure :: bool
  b_flow :: "string option"
  b_cmin :: "real option"
  b_cmax :: "real option"

text \<open>\<^verbatim>\<open>np.all(xs == 0)\<close>, \<^verbatim>\<open>m[:, 0]\<close> and \<^verbatim>\<open>m[:, -1]\<close>.\<close>

definition all_zero :: "real list \<Rightarrow> bool" where
  "all_zero xs = list_all (\<lambda>v. v = 0) xs"

definition first_col :: "real list list \<Rightarrow> error + real list" where
  "first_col m = (if list_ex (\<lambda>r. r = []) m then Inl IndexError else Inr (map hd m))"

definition last_col :: "real list list \<Rightarrow> error + real list" where
  "last_col m = (if list_ex (\<lambda>r. r = []) m then Inl IndexError else Inr (map last m))"

record hints =
  hint_xlo :: bool
  hint_xhi :: bool
  hint_ylo :: bool
  hint_yhi :: bool

text \<open>
  Lines 707-714: the first and then the last row of the padded array is cut off, with its
  x edge, when all its entries are zero; the flag of a side says that its row was kept.
\<close>

definition trim_x ::
  "real list list \<Rightarrow> real list \<Rightarrow> error + (real list list \<times> real list \<times> bool \<times> bool)" where
  "trim_x padded pxbins =
     rbind (np_first padded) (\<lambda>row0.
     let (padded1, pxbins1, xlo) =
           (if all_zero row0 then (tl padded, tl pxbins, False) else (padded, pxbins, True))
     in
     rbind (np_last padded1) (\<lambda>row1.
     let (padded2, pxbins2, xhi) =
           (if all_zero row1 then (butlast padded1, butlast pxbins1, False)
            else (padded1, pxbins1, True))
     in Inr (padded2, pxbins2, xlo, xhi)))"

text \<open>Lines 715-722: the same for the first and the last column, and the y edges.\<close>

definition trim_y ::
  "real list list \<Rightarrow> real list \<Rightarrow> error + (real list list \<times> real list \<times> bool \<times> bool)" where
  "trim_y padded pybins =
     rbind (first_col padded) (\<lambda>col0.
     let (padded1, pybins1, ylo) =
           (if all_zero col0 then (map tl padded, tl pybins, False) else (padded, pybins, True))
     in
     rbind (last_col padded1) (\<lambda>col1.
     let (padded2, pybins2, yhi) =
           (if all_zero col1 then (map butlast padded1, butlast pybins1, False)
            else (padded1, pybins1, True))
     in Inr (padded2, pybins2, ylo, yhi)))"

text \<open>
  Lines 702-722: the edges get a margin of 5% of the axis range on both sides, then the
  rows and the columns are trimmed.
\<close>

definition trim_padded ::
  "real list \<Rightarrow> real list \<Rightarrow> real list list \<Rightarrow>
   error + (real list list \<times> real list \<times> real list \<times> hints)" where
  "trim_padded xbins ybins padded =
     rbind (np_last xbins) (\<lambda>x1.
     rbind (np_first xbins) (\<lambda>x0.
     rbind (np_last ybins) (\<lambda>y1.
     rbind (np_first ybins) (\<lambda>y0.
     let xwidth = (x1 - x0) * 0.05;
         ywidth = (y1 - y0) * 0.05;
         pxbins = (x0 - xwidth) # xbins @ [x1 + xwidth];
         pybins = (y0 - ywidth) # ybins @ [y1 + ywidth]
     in
     rbind (trim_x padded pxbins) (\<lambda>(padded2, pxbins2, xlo, xhi).
     rbind (trim_y padded2 pybins) (\<lambda>(padded4, pybins2, ylo, yhi).
     Inr (padded4, pxbins2, pybins2,
          \<lparr>hint_xlo = xlo, hint_xhi = xhi, hint_ylo = ylo, hint_yhi = yhi\<rparr>)))))))"

text \<open>
  A list without its first entry unless \<open>keep_lo\<close>, and then without its last entry unless
  \<open>keep_hi\<close>: what the trimming above leaves of the rows, of a row, and of the edges.
\<close>

definition trim_ends :: "bool \<Rightarrow> bool \<Rightarrow> 'a list \<Rightarrow> 'a list" where
  "trim_ends keep_lo keep_hi xs =
     (if keep_hi then id else butlast) ((if keep_lo then id else tl) xs)"

text \<open>
  \<^verbatim>\<open>row + flow\<close> assigned back to the row: the lengths agree, or the flow slice has length
  one and is broadcast.
\<close>

definition add_into :: "real list \<Rightarrow> real list \<Rightarrow> error + real list" where
  "add_into row fl =
     (if length fl = length row then Inr (map2 (+) row fl)
      else if length fl = 1 then Inr (map (\<lambda>v. v + hd fl) row)
      else Inl (ValueError ''operands could not be broadcast together''))"

definition inner :: "'a list \<Rightarrow> 'a list" where
  "inner xs = butlast (tl xs)"

definition set_first :: "'a list \<Rightarrow> 'a \<Rightarrow> 'a list" where
  "set_first xs v = xs[0 := v]"

definition set_last :: "'a list \<Rightarrow> 'a \<Rightarrow> 'a list" where
  "set_last xs v = xs[length xs - 1 := v]"

text \<open>
  Lines 727-744, \<^verbatim>\<open>flow == "sum"\<close>. Each tuple assignment computes its right-hand side
  first and then stores left to right. None of the failures of these lines is a
  TypeError, so the handler of lines 745-750 lets them pass.
\<close>

definition sum_borders :: "real list list \<Rightarrow> real list list \<Rightarrow> error + real list list" where
  "sum_borders H0 vf =
     rbind (np_first H0) (\<lambda>h_first.
     rbind (np_first vf) (\<lambda>vf_first.
     rbind (add_into h_first (inner vf_first)) (\<lambda>r0.
     rbind (np_last H0) (\<lambda>h_last.
     rbind (np_last vf) (\<lambda>vf_last.
     rbind (add_into h_last (inner vf_last)) (\<lambda>r1.
     let H1 = set_last (set_first H0 r0) r1 in
     rbind (first_col H1) (\<lambda>h_c0.
     rbind (first_col (inner vf)) (\<lambda>vf_c0.
     rbind (add_into h_c0 vf_c0) (\<lambda>c0.
     rbind (last_col H1) (\<lambda>h_c1.
     rbind (last_col (inner vf)) (\<lambda>vf_c1.
     rbind (add_into h_c1 vf_c1) (\<lambda>c1.
     let H2 = map2 set_last (map2 set_first H1 c0) c1 in
     rbind (np_first H2) (\<lambda>a.
     rbind (np_last H2) (\<lambda>b.
     rbind (np_first vf_first) (\<lambda>v00.
     rbind (np_first a) (\<lambda>h00.
     rbind (np_last vf_last) (\<lambda>v11.
     rbind (np_last b) (\<lambda>h11.
     rbind (np_last vf_first) (\<lambda>v01.
     rbind (np_last a) (\<lambda>h01.
     rbind (np_first vf_last) (\<lambda>v10.
     rbind (np_first b) (\<lambda>h10.
     let H3 = set_first H2 (set_first (H2 ! 0) (v00 + h00));
         H4 = set_last H3 (set_last (last H3) (v11 + h11));
         H5 = set_first H4 (set_last (H4 ! 0) (v01 + h01));
         H6 = set_last H5 (set_first (last H5) (v10 + h10))
     in Inr H6))))))))))))))))))))))"

text \<open>
  Lines 687-750: the grid and the edges that will be drawn, the flow mode that remains in
  force, and the hint flags (assigned only under "hint" and "show").
\<close>

record grid =
  g_H :: "real list list"
  g_xbins :: "real list"
  g_ybins :: "real list"
  g_flow :: "string option"
  g_hints :: "hints option"

definition flow2d :: "hist2d \<Rightarrow> string option \<Rightarrow> error + grid" where
  "flow2d h flow =
     (if \<not> h2_flow_arg h \<and> flow \<noteq> None then
        Inr \<lparr>g_H = h2_values h, g_xbins = h2_xbins h, g_ybins = h2_ybins h,
             g_flow = None, g_hints = None\<rparr>
      else if flow = Some ''hint'' \<or> flow = Some ''show'' then
        rbind (trim_padded (h2_xbins h) (h2_ybins h) (h2_padded h))
          (\<lambda>(padded, pxbins, pybins, hs).
             if flow = Some ''show''
             then Inr \<lparr>g_H = padded, g_xbins = pxbins, g_ybins = pybins,
                       g_flow = flow, g_hints = Some hs\<rparr>
             else Inr \<lparr>g_H = h2_values h, g_xbins = h2_xbins h, g_ybins = h2_ybins h,
                       g_flow = flow, g_hints = Some hs\<rparr>)
      else if flow = Some ''sum'' then
        rbind (sum_borders (h2_values h) (h2_values_flow h)) (\<lambda>H.
          Inr \<lparr>g_H = H, g_xbins = h2_xbins h, g_ybins = h2_ybins h,
               g_flow = flow, g_hints = None\<rparr>)
      else
        Inr \<lparr>g_H = h2_values h, g_xbins = h2_xbins h, g_ybins = h2_ybins h,
             g_flow = flow, g_hints = None\<rparr>)"

text \<open>Lines 763-768: the transposed grid, with the cells outside [cmin, cmax] blanked.\<close>

definition mask_cell :: "real option \<Rightarrow> real option \<Rightarrow> real \<Rightarrow> real option" where
  "mask_cell cmin cmax v =
     (if (case cmin of None \<Rightarrow> False | Some c \<Rightarrow> v < c) then None
      else if (case cmax of None \<Rightarrow> False | Some c \<Rightarrow> v > c) then None
      else Some v)"

definition rendered :: "real option \<Rightarrow> real option \<Rightarrow> real list list \<Rightarrow> real option list list" where
  "rendered cmin cmax H = map (map (mask_cell cmin cmax)) (transpose H)"

text \<open>\<^verbatim>\<open>xs[1]\<close> and \<^verbatim>\<open>xs[-2]\<close>.\<close>

definition np_second :: "'a list \<Rightarrow> error + 'a" where
  "np_second xs = (if length xs < 2 then Inl IndexError else Inr (xs ! 1))"

definition np_last_but_one :: "'a list \<Rightarrow> error + 'a" where
  "np_last_but_one xs = (if length xs < 2 then Inl IndexError else Inr (xs ! (length xs - 2)))"

text \<open>
  Lines 805-896: the dashed lines of "show" and the markers of "hint", issued in the
  order x low, x high, y low, y high; an exception keeps what was issued before it.
\<close>

fun hint_lines ::
  "(bool \<times> edge \<times> (error + real)) list \<Rightarrow> draw_call list \<times> error option" where
  "hint_lines [] = ([], None)"
| "hint_lines ((on, e, pos) # rest) =
     (if on then
        (case pos of
           Inl err \<Rightarrow> ([], Some err)
         | Inr x \<Rightarrow> (case hint_lines rest of (t, r) \<Rightarrow> (HintLine e x # t, r)))
      else hint_lines rest)"

definition hint_markers :: "hints \<Rightarrow> draw_call list" where
  "hint_markers hs =
     (if hint_xlo hs then [HintMarker XLo] else []) @
     (if hint_xhi hs then [HintMarker XHi] else []) @
     (if hint_ylo hs then [HintMarker YLo] else []) @
     (if hint_yhi hs then [HintMarker YHi] else [])"

definition draw_hints :: "bool \<Rightarrow> grid \<Rightarrow> draw_call list \<times> error option" where
  "draw_hints has_figure g =
     (case g_hints g of
        None \<Rightarrow> ([], None)
      | Some hs \<Rightarrow>
          if g_flow g = Some ''show'' then
            hint_lines
              [(hint_xlo hs, XLo, np_second (g_xbins g)),
               (hint_xhi hs, XHi, np_last_but_one (g_xbins g)),
               (hint_ylo hs, YLo, np_second (g_ybins g)),
               (hint_yhi hs, YHi, np_last_but_one (g_ybins g))]
          else if g_flow g = Some ''hint'' then
            (if \<not> has_figure then ([], Some (ValueError ''No figure found.''))
             else (hint_markers hs, None))
          else ([], None))"

text \<open>
  \<^verbatim>\<open>hist2dplot\<close>: the calls issued to the axes and the exception that ended the call, if
  any. The colorbar, the axis labels and ticks, and the per-cell text labels are not
  modelled. There is no check of the \<^verbatim>\<open>flow\<close> argument in this function.
\<close>

definition hist2dplot :: "hist2dplot_args \<Rightarrow> draw_call list \<times> error option" where
  "hist2dplot args =
     (if \<not> b_ax_ok args then ([], Some (ValueError ''ax must be a matplotlib Axes object''))
      else
        (case flow2d (b_hist args) (b_flow args) of
           Inl e \<Rightarrow> ([], Some e)
         | Inr g \<Rightarrow>
             (case draw_hints (b_has_figure args) g of
                (t, e) \<Rightarrow>
                  (Pcolormesh (g_xbins g) (g_ybins g)
                     (rendered (b_cmin args) (b_cmax args) (g_H g)) # t, e))))"

section \<open>yscale_legend and yscale_anchored_text (lines 1013-1108)\<close>

text \<open>
  The part of the axes that the loops read and write: the y limits, whether the y scale
  is logarithmic, and whether the axes belong to a figure. How many drawn elements the
  legend box (or the text box) overlaps after a redraw is decided by matplotlib; it is the
  parameter \<open>ov\<close>, a function of the axes.
\<close>

record axes =
  ylim_lo :: real
  ylim_hi :: real
  yscale_log :: bool
  has_figure :: bool

datatype log_entry = Debug nat | Info string | Warning string

text \<open>Line 1039 and line 1088.\<close>

definition scale_factor :: "axes \<Rightarrow> real" where
  "scale_factor ax = (if yscale_log ax then 10 powr 1.05 else 1.05)"

text \<open>\<^verbatim>\<open>ax.set_ylim(ax.get_ylim()[0], ax.get_ylim()[-1] * scale_factor)\<close>.\<close>

definition rescale :: "real \<Rightarrow> axes \<Rightarrow> axes" where
  "rescale sf ax = ax\<lparr>ylim_hi := ylim_hi ax * sf\<rparr>"

text \<open>
  The loop of lines 1041-1058 and of lines 1090-1107, from a value of \<^verbatim>\<open>max_scales\<close>
  on; \<open>what\<close> is "legend" or "AnchoredText" in the messages (kept without their
  backquotes). The result is the axes as they are left, the log, and the exception if one
  was raised. The loop condition draws the canvas of \<^verbatim>\<open>ax.figure\<close> (lines
  980-1010): on axes without a figure it raises AttributeError before anything is
  rescaled. On axes with a figure the condition is taken to return its count.
\<close>

function yscale_loop ::
  "(axes \<Rightarrow> nat) \<Rightarrow> real \<Rightarrow> bool \<Rightarrow> string \<Rightarrow> real \<Rightarrow> nat \<Rightarrow> axes \<Rightarrow> log_entry list \<Rightarrow>
   axes \<times> log_entry list \<times> error option" where
  "yscale_loop ov otol soft_fail what sf max_scales ax lg =
     (if \<not> has_figure ax then
        (ax, lg, Some (AttributeError ''NoneType object has no attribute canvas''))
      else if real (ov ax) > otol then
        (let lg1 = lg @ [Debug (ov ax), Info ''Scaling y-axis by 5% to fit legend''];
             ax1 = rescale sf ax
         in if \<not> has_figure ax1 then
              (ax1, lg1, Some (RuntimeError ''Could not fetch figure, maybe no plot is drawn yet?''))
            else if max_scales > 10 then
              (if \<not> soft_fail then
                 (ax1, lg1, Some (RuntimeError (''Could not fit '' @ what @
                    '' in 10 iterations, return anyway by passing soft_fail=True.'')))
               else
                 (ax1, lg1 @ [Warning (''Could not fit '' @ what @ '' in 10 iterations'')], None))
            else yscale_loop ov otol soft_fail what sf (max_scales + 1) ax1 lg1)
      else (ax, lg, None))"
  by pat_completeness auto
termination
  by (relation "measure (\<lambda>(ov, otol, soft_fail, what, sf, max_scales, ax, lg). 11 - max_scales)")
    auto

declare yscale_loop.simps [simp del]

text \<open>Lines 1034-1037: \<^verbatim>\<open>otol\<close> defaults to zero.\<close>

definition otol_of :: "real option \<Rightarrow> real" where
  "otol_of otol = (case otol of None \<Rightarrow> 0 | Some t \<Rightarrow> t)"

text \<open>
  \<^verbatim>\<open>yscale_legend(ax, otol, soft_fail)\<close>; \<open>ov\<close> stands for
  \<^verbatim>\<open>overlap(ax, _draw_leg_bbox(ax))\<close>. The default of \<^verbatim>\<open>soft_fail\<close> is False.
\<close>

definition yscale_legend ::
  "(axes \<Rightarrow> nat) \<Rightarrow> axes \<Rightarrow> real option \<Rightarrow> bool \<Rightarrow> axes \<times> log_entry list \<times> error option" where
  "yscale_legend ov ax otol soft_fail =
     yscale_loop ov (otol_of otol) soft_fail ''legend'' (scale_factor ax) 0 ax []"

text \<open>
  \<^verbatim>\<open>yscale_anchored_text(ax, otol, soft_fail)\<close>; \<open>ov\<close> stands for
  \<^verbatim>\<open>overlap(ax, _draw_text_bbox(ax))\<close>.
\<close>

definition yscale_anchored_text ::
  "(axes \<Rightarrow> nat) \<Rightarrow> axes \<Rightarrow> real option \<Rightarrow> bool \<Rightarrow> axes \<times> log_entry list \<times> error option" where
  "yscale_anchored_text ov ax otol soft_fail =
     yscale_loop ov (otol_of otol) soft_fail ''AnchoredText'' (scale_factor ax) 0 ax []"

section \<open>Properties: flow bins of histplot\<close>

lemma rbind_Inl [simp]: "rbind (Inl e) f = Inl e"
  by (simp add: rbind_def)

lemma rbind_Inr [simp]: "rbind (Inr x) f = f x"
  by (simp add: rbind_def)

lemma sum_flow_values:
  assumes "val \<noteq> []"
    and "case variance of None \<Rightarrow> True | Some v \<Rightarrow> length v = length val"
    and "underflow fc > 0" and "overflow fc > 0"
  shows "\<exists>var'. sum_flow add addv bins val variance fc =
     Inr (Plottable ((val[0 := add (val ! 0) (underflow fc)])
        [length val - 1 :=
           add ((val[0 := add (val ! 0) (underflow fc)]) ! (length val - 1)) (overflow fc)])
        bins var')"
  using assms
  by (cases variance) (auto simp: sum_flow_def add_first_def add_last_def add_opt_def)

lemma int64_add_exact:
  assumes "a \<in> \<int>" and "d \<in> \<int>" and "- (2 ^ 63) \<le> a + d" and "a + d < 2 ^ 63"
  shows "int64_add a d = a + d"
proof -
  from assms(1,2) obtain i j where a: "a = real_of_int i" and d: "d = real_of_int j"
    by (auto elim!: Ints_cases)
  have "real_of_int (- (2 ^ 63)) \<le> real_of_int (i + j)"
    using assms(3) unfolding a d by simp
  then have lo: "- (2 ^ 63) \<le> i + j" by (simp only: of_int_le_iff)
  have "real_of_int (i + j) < real_of_int (2 ^ 63)"
    using assms(4) unfolding a d by simp
  then have hi: "i + j < 2 ^ 63" by (simp only: of_int_less_iff)
  have "(i + j + 2 ^ 63) mod 2 ^ 64 = i + j + 2 ^ 63"
    using lo hi by (intro mod_pos_pos_trivial) simp_all
  then show ?thesis by (simp add: int64_add_def a d)
qed

lemma float64_round_at:
  assumes "2 ^ k \<le> \<bar>x\<bar>" and "\<bar>x\<bar> < 2 ^ (k + 1)"
  shows "float64_round x =
     real_of_int (round_half_even (x / 2 powr (real k - 52))) * 2 powr (real k - 52)"
proof -
  have pos: "0 < \<bar>x\<bar>" using assms(1) by (smt (verit) zero_less_power)
  have "\<lfloor>log 2 \<bar>x\<bar>\<rfloor> = int k"
    using assms pos by (simp add: floor_log_eq_powr_iff powr_realpow powr_add)
  then show ?thesis using pos by (simp add: float64_round_def Let_def)
qed

text \<open>
  C1, as amended. Under \<^verbatim>\<open>flow="sum"\<close>, for a well-formed histogram whose flow bins hold
  underflow 2 and overflow 3: with two bins or more, the plottable has the edges and the
  number of bins of the input, its first value is the sum of the input's first value and
  2 as the dtype of the values stores it, its last value is the sum of the input's last
  value and 3 as that dtype stores it, and every value between them is unchanged. The
  first value is the input's plus 2 if the dtype holds that sum exactly, and the last
  value is the input's plus 3 if the dtype holds that sum exactly. With a single bin,
  which is first and last at once, that bin receives both additions.
\<close>

theorem sum_flow_adds_to_outer_bins:
  assumes "get_flow h = Inr fc" and "underflow fc = 2" and "overflow fc = 3" and "wf_hist h"
  shows "(2 \<le> length (h_values h) \<longrightarrow>
           (\<exists>p. set_plottable (Some ''sum'') bins h = Inr p \<and>
                p_edges p = bins \<and>
                length (p_values p) = length (h_values h) \<and>
                p_values p ! 0 = h_add h (h_values h ! 0) 2 \<and>
                last (p_values p) = h_add h (last (h_values h)) 3 \<and>
                (\<forall>i. 0 < i \<and> i + 1 < length (h_values h) \<longrightarrow>
                     p_values p ! i = h_values h ! i) \<and>
                (h_add h (h_values h ! 0) 2 = h_values h ! 0 + 2 \<longrightarrow>
                   p_values p ! 0 = h_values h ! 0 + 2) \<and>
                (h_add h (last (h_values h)) 3 = last (h_values h) + 3 \<longrightarrow>
                   last (p_values p) = last (h_values h) + 3))) \<and>
         (length (h_values h) = 1 \<longrightarrow>
           (\<exists>p. set_plottable (Some ''sum'') bins h = Inr p \<and>
                p_values p = [h_add h (h_add h (h_values h ! 0) 2) 3]))"
proof -
  let ?v = "h_values h"
  let ?add = "h_add h"
  have wf: "case h_variances h of None \<Rightarrow> True | Some v \<Rightarrow> length v = length ?v"
    using assms(4) by (simp add: wf_hist_def)
  have pos: "underflow fc > 0" "overflow fc > 0" using assms(2,3) by simp_all
  have sp: "set_plottable (Some ''sum'') bins h =
      sum_flow ?add (h_var_add h) bins ?v (h_variances h) fc"
    using assms(1) by (simp add: set_plottable_def plottable_of_flow_def)
  have eq: "\<exists>var'. sum_flow ?add (h_var_add h) bins ?v (h_variances h) fc =
        Inr (Plottable ((?v[0 := ?add (?v ! 0) (underflow fc)])
          [length ?v - 1 :=
             ?add ((?v[0 := ?add (?v ! 0) (underflow fc)]) ! (length ?v - 1)) (overflow fc)])
          bins var')" if "?v \<noteq> []"
    using sum_flow_values[OF that wf pos] .
  show ?thesis
  proof (intro conjI impI)
    assume len: "2 \<le> length ?v"
    then have ne: "?v \<noteq> []" by auto
    from eq[OF ne] obtain var' where
      "sum_flow ?add (h_var_add h) bins ?v (h_variances h) fc =
        Inr (Plottable ((?v[0 := ?add (?v ! 0) (underflow fc)])
          [length ?v - 1 :=
             ?add ((?v[0 := ?add (?v ! 0) (underflow fc)]) ! (length ?v - 1)) (overflow fc)])
          bins var')"
      by blast
    then show "\<exists>p. set_plottable (Some ''sum'') bins h = Inr p \<and>
                p_edges p = bins \<and>
                length (p_values p) = length (h_values h) \<and>
                p_values p ! 0 = h_add h (h_values h ! 0) 2 \<and>
                last (p_values p) = h_add h (last (h_values h)) 3 \<and>
                (\<forall>i. 0 < i \<and> i + 1 < length (h_values h) \<longrightarrow>
                     p_values p ! i = h_values h ! i) \<and>
                (h_add h (h_values h ! 0) 2 = h_values h ! 0 + 2 \<longrightarrow>
                   p_values p ! 0 = h_values h ! 0 + 2) \<and>
                (h_add h (last (h_values h)) 3 = last (h_values h) + 3 \<longrightarrow>
                   last (p_values p) = last (h_values h) + 3)"
      using len ne assms(2,3)
      by (simp add: sp Plottable_def last_conv_nth nth_list_update)
  next
    assume len: "length ?v = 1"
    then have ne: "?v \<noteq> []" by auto
    from len obtain a where a: "?v = [a]" by (cases ?v) auto
    from eq[OF ne] obtain var' where
      "sum_flow ?add (h_var_add h) bins ?v (h_variances h) fc =
        Inr (Plottable ((?v[0 := ?add (?v ! 0) (underflow fc)])
          [length ?v - 1 :=
             ?add ((?v[0 := ?add (?v ! 0) (underflow fc)]) ! (length ?v - 1)) (overflow fc)])
          bins var')"
      by blast
    then show "\<exists>p. set_plottable (Some ''sum'') bins h = Inr p \<and>
                p_values p = [h_add h (h_add h (h_values h ! 0) 2) 3]"
      using assms(2,3) by (simp add: sp Plottable_def a)
  qed
qed

theorem sum_flow_adds_to_outer_bins_witness:
  "get_flow \<lparr>h_values = [10, 20, 30], h_variances = None, h_flow = FlowArg,
             h_values_flow = [2, 10, 20, 30, 3], h_variances_flow = [],
             h_add = (+), h_var_add = (+)\<rparr> =
     Inr \<lparr>underflow = 2, overflow = 3, underflowv = 0, overflowv = 0\<rparr> \<and>
   wf_hist \<lparr>h_values = [10, 20, 30], h_variances = None, h_flow = FlowArg,
            h_values_flow = [2, 10, 20, 30, 3], h_variances_flow = [],
            h_add = (+), h_var_add = (+)\<rparr> \<and>
   set_plottable (Some ''sum'') [0, 1, 2, 3]
     \<lparr>h_values = [10, 20, 30], h_variances = None, h_flow = FlowArg,
      h_values_flow = [2, 10, 20, 30, 3], h_variances_flow = [],
      h_add = (+), h_var_add = (+)\<rparr> =
     Inr (Plottable [12, 20, 33] [0, 1, 2, 3] None)"
  using sum_flow_adds_to_outer_bins
    [of "\<lparr>h_values = [10, 20, 30], h_variances = None, h_flow = FlowArg,
          h_values_flow = [2, 10, 20, 30, 3], h_variances_flow = [],
          h_add = (+), h_var_add = (+)\<rparr>"
        "\<lparr>underflow = 2, overflow = 3, underflowv = 0, overflowv = 0\<rparr>" "[0, 1, 2, 3]"]
  by (simp add: get_flow_def wf_hist_def np_first_def np_last_def set_plottable_def
      plottable_of_flow_def sum_flow_def add_first_def add_last_def add_opt_def)

text \<open>
  The claim C1 as it was stated fails in three ways. On a histogram with a single bin:
  with the value 10, underflow 2 and overflow 3, the first bin becomes 15, not 12. On
  int64 values: the first bin 2^63 - 1 wraps around to 1 - 2^63. On float64 values: the
  first bin 2^54 stays 2^54, and the last bin 2^53 becomes 2^53 + 4.
\<close>

theorem sum_flow_not_exactly_counterexample:
  "set_plottable (Some ''sum'') [0, 1]
     \<lparr>h_values = [10], h_variances = None, h_flow = FlowArg,
      h_values_flow = [2, 10, 3], h_variances_flow = [],
      h_add = (+), h_var_add = (+)\<rparr> =
     Inr (Plottable [15] [0, 1] None) \<and>
   (15 :: real) \<noteq> 10 + 2 \<and>
   set_plottable (Some ''sum'') [0, 1, 2]
     \<lparr>h_values = [9223372036854775807, 5], h_variances = None, h_flow = FlowArg,
      h_values_flow = [2, 9223372036854775807, 5, 3], h_variances_flow = [],
      h_add = int64_add, h_var_add = int64_add\<rparr> =
     Inr (Plottable [- 9223372036854775807, 8] [0, 1, 2] None) \<and>
   (- 9223372036854775807 :: real) \<noteq> 9223372036854775807 + 2 \<and>
   set_plottable (Some ''sum'') [0, 1, 2]
     \<lparr>h_values = [18014398509481984, 9007199254740992], h_variances = None,
      h_flow = FlowArg,
      h_values_flow = [2, 18014398509481984, 9007199254740992, 3], h_variances_flow = [],
      h_add = float64_add, h_var_add = float64_add\<rparr> =
     Inr (Plottable [18014398509481984, 9007199254740996] [0, 1, 2] None) \<and>
   (18014398509481984 :: real) \<noteq> 18014398509481984 + 2 \<and>
   (9007199254740996 :: real) \<noteq> 9007199254740992 + 3"
proof -
  have a: "float64_add 18014398509481984 2 = 18014398509481984"
    unfolding float64_add_def
    by (subst float64_round_at[of 54]) (simp_all add: round_half_even_def)
  have b: "float64_add 9007199254740992 3 = 9007199254740996"
    unfolding float64_add_def
    by (subst float64_round_at[of 53]) (simp_all add: round_half_even_def)
  have c: "int64_add 9223372036854775807 2 = - 9223372036854775807"
    by (simp add: int64_add_def)
  have d: "int64_add 5 3 = 8"
    by (simp add: int64_add_def)
  show ?thesis
    by (simp add: get_flow_def np_first_def np_last_def set_plottable_def
        plottable_of_flow_def sum_flow_def add_first_def add_last_def add_opt_def
        Plottable_def a b c d)
qed

text \<open>
  C10. Under \<^verbatim>\<open>flow="sum"\<close> and \<^verbatim>\<open>flow="show"\<close> the flow content of a side enters the
  plottable only when it is strictly positive: with an underflow (overflow) that is zero or
  negative the plottable is the one obtained with no underflow (overflow) content at all,
  whatever the variance of that flow bin; when both are zero or negative the plottable is
  the input's values on the input's edges, with nothing added and no bin appended.
\<close>

theorem flow_only_when_positive:
  assumes "flow = Some ''sum'' \<or> flow = Some ''show''"
  shows "(underflow fc \<le> 0 \<longrightarrow>
            plottable_of_flow add addv flow bins v var fc =
            plottable_of_flow add addv flow bins v var
              (fc\<lparr>underflow := 0, underflowv := 0\<rparr>)) \<and>
         (overflow fc \<le> 0 \<longrightarrow>
            plottable_of_flow add addv flow bins v var fc =
            plottable_of_flow add addv flow bins v var
              (fc\<lparr>overflow := 0, overflowv := 0\<rparr>)) \<and>
         (underflow fc \<le> 0 \<and> overflow fc \<le> 0 \<and> bins \<noteq> [] \<longrightarrow>
            plottable_of_flow add addv flow bins v var fc = Inr (Plottable v bins var))"
  using assms
  by (auto simp: plottable_of_flow_def sum_flow_def show_flow_def flow_bin_size_def
      np_first_def np_last_def split: list.splits)

theorem flow_only_when_positive_witness:
  "(- 1 :: real) \<le> 0 \<and> (0 :: real) \<le> 0 \<and>
   plottable_of_flow (+) (+) (Some ''show'') [0, 1, 2] [4, 5] (Some [4, 5])
     \<lparr>underflow = - 1, overflow = 0, underflowv = 7, overflowv = 0\<rparr> =
     Inr (Plottable [4, 5] [0, 1, 2] (Some [4, 5])) \<and>
   plottable_of_flow (+) (+) (Some ''sum'') [0, 1, 2] [4, 5] (Some [4, 5])
     \<lparr>underflow = - 1, overflow = 0, underflowv = 7, overflowv = 0\<rparr> =
     Inr (Plottable [4, 5] [0, 1, 2] (Some [4, 5]))"
  using flow_only_when_positive
    [of "Some ''show''" "\<lparr>underflow = - 1, overflow = 0, underflowv = 7, overflowv = 0\<rparr>"
        "(+)" "(+)" "[0, 1, 2]" "[4, 5]" "Some [4, 5]"]
    flow_only_when_positive
    [of "Some ''sum''" "\<lparr>underflow = - 1, overflow = 0, underflowv = 7, overflowv = 0\<rparr>"
        "(+)" "(+)" "[0, 1, 2]" "[4, 5]" "Some [4, 5]"]
  by (simp add: plottable_of_flow_def sum_flow_def show_flow_def flow_bin_size_def
      np_first_def np_last_def)

section \<open>Properties: a scalar error\<close>








section \<open>Properties: keyword arguments per series\<close>

lemma fan_out_ok:
  "i + length vs \<le> length cs \<Longrightarrow>
   \<exists>cs'. fan_out k vs i cs = Inr cs' \<and> length cs' = length cs \<and>
     (\<forall>j < length cs. cs' ! j =
        (if i \<le> j \<and> j < i + length vs then (cs ! j)(k \<mapsto> vs ! (j - i)) else cs ! j))"
proof (induction vs arbitrary: i cs)
  case Nil
  then show ?case by auto
next
  case (Cons v vs)
  let ?cs = "cs[i := (cs ! i)(k \<mapsto> v)]"
  from Cons.prems have i: "i < length cs" and le: "Suc i + length vs \<le> length ?cs" by simp_all
  from Cons.IH[OF le] obtain cs' where
    r: "fan_out k vs (Suc i) ?cs = Inr cs'" and l: "length cs' = length ?cs" and
    e: "\<forall>j < length ?cs. cs' ! j =
        (if Suc i \<le> j \<and> j < Suc i + length vs then (?cs ! j)(k \<mapsto> vs ! (j - Suc i)) else ?cs ! j)"
    by blast
  have "\<forall>j < length cs. cs' ! j =
        (if i \<le> j \<and> j < i + length (v # vs) then (cs ! j)(k \<mapsto> (v # vs) ! (j - i)) else cs ! j)"
  proof (intro allI impI)
    fix j assume j: "j < length cs"
    show "cs' ! j =
        (if i \<le> j \<and> j < i + length (v # vs) then (cs ! j)(k \<mapsto> (v # vs) ! (j - i)) else cs ! j)"
    proof (cases "j = i")
      case True
      then show ?thesis using e i by simp
    next
      case False
      then show ?thesis using e j by (auto simp: nth_Cons' Suc_diff_le)
    qed
  qed
  then show ?case using i r l by simp
qed

lemma fan_out_fail:
  "length cs < i + length vs \<Longrightarrow> i \<le> length cs \<Longrightarrow> fan_out k vs i cs = Inl IndexError"
  by (induction vs arbitrary: i cs) auto

lemma chunk_kwarg_ok:
  assumes "fanned v \<longrightarrow> length (items v) \<le> length cs"
  shows "\<exists>cs'. chunk_kwarg k v cs = Inr cs' \<and> length cs' = length cs \<and>
     (\<forall>j < length cs. \<forall>k'. (cs' ! j) k' =
        (if k' = k then (case kw_entry v j of Some x \<Rightarrow> Some x | None \<Rightarrow> (cs ! j) k)
         else (cs ! j) k'))"
proof (cases "fanned v")
  case True
  with assms have "0 + length (items v) \<le> length cs" by simp
  from fan_out_ok[OF this, of k] True show ?thesis
    by (auto simp: chunk_kwarg_def fanned_def kw_entry_def)
next
  case False
  then show ?thesis
    by (auto simp: chunk_kwarg_def fanned_def kw_entry_def)
qed

lemma chunk_kwarg_fail:
  assumes "fanned v" and "length cs < length (items v)"
  shows "chunk_kwarg k v cs = Inl IndexError"
  using assms fan_out_fail[of cs 0 "items v" k] by (simp add: chunk_kwarg_def fanned_def)

lemma chunk_loop_ok:
  assumes "distinct (map fst kws)"
    and "list_all (\<lambda>(k, v). fanned v \<longrightarrow> length (items v) \<le> length cs) kws"
  shows "\<exists>cs'. chunk_loop kws cs = Inr cs' \<and> length cs' = length cs \<and>
     (\<forall>j < length cs. \<forall>k'. (cs' ! j) k' =
        (case map_of kws k' of None \<Rightarrow> (cs ! j) k'
         | Some v \<Rightarrow> (case kw_entry v j of Some x \<Rightarrow> Some x | None \<Rightarrow> (cs ! j) k')))"
  using assms
proof (induction kws arbitrary: cs)
  case Nil
  then show ?case by simp
next
  case (Cons kv kws)
  obtain k v where kv: "kv = (k, v)" by (cases kv)
  from Cons.prems kv have fit: "fanned v \<longrightarrow> length (items v) \<le> length cs"
    and rest: "list_all (\<lambda>(k, v). fanned v \<longrightarrow> length (items v) \<le> length cs) kws"
    and d: "distinct (map fst kws)" and nk: "k \<notin> fst ` set kws"
    by auto
  from chunk_kwarg_ok[OF fit, of k] obtain cs1 where
    c1: "chunk_kwarg k v cs = Inr cs1" and l1: "length cs1 = length cs" and
    e1: "\<forall>j < length cs. \<forall>k'. (cs1 ! j) k' =
        (if k' = k then (case kw_entry v j of Some x \<Rightarrow> Some x | None \<Rightarrow> (cs ! j) k)
         else (cs ! j) k')"
    by blast
  from rest l1 have rest1: "list_all (\<lambda>(k, v). fanned v \<longrightarrow> length (items v) \<le> length cs1) kws"
    by simp
  from Cons.IH[OF d rest1] obtain cs' where
    c2: "chunk_loop kws cs1 = Inr cs'" and l2: "length cs' = length cs1" and
    e2: "\<forall>j < length cs1. \<forall>k'. (cs' ! j) k' =
        (case map_of kws k' of None \<Rightarrow> (cs1 ! j) k'
         | Some v \<Rightarrow> (case kw_entry v j of Some x \<Rightarrow> Some x | None \<Rightarrow> (cs1 ! j) k'))"
    by blast
  have mk: "map_of kws k = None" using nk by (simp add: map_of_eq_None_iff)
  have "\<forall>j < length cs. \<forall>k'. (cs' ! j) k' =
        (case map_of (kv # kws) k' of None \<Rightarrow> (cs ! j) k'
         | Some v \<Rightarrow> (case kw_entry v j of Some x \<Rightarrow> Some x | None \<Rightarrow> (cs ! j) k'))"
  proof (intro allI impI)
    fix j k' assume j: "j < length cs"
    show "(cs' ! j) k' =
        (case map_of (kv # kws) k' of None \<Rightarrow> (cs ! j) k'
         | Some v \<Rightarrow> (case kw_entry v j of Some x \<Rightarrow> Some x | None \<Rightarrow> (cs ! j) k'))"
    proof (cases "k' = k")
      case True
      then show ?thesis using e1 e2 j l1 mk kv by (simp split: option.splits)
    next
      case False
      then show ?thesis using e1 e2 j l1 kv by (simp split: option.splits)
    qed
  qed
  then show ?case using c1 c2 l1 l2 kv by simp
qed

lemma chunk_loop_fail:
  assumes "\<not> list_all (\<lambda>(k, v). fanned v \<longrightarrow> length (items v) \<le> length cs) kws"
  shows "chunk_loop kws cs = Inl IndexError"
  using assms
proof (induction kws arbitrary: cs)
  case Nil
  then show ?case by simp
next
  case (Cons kv kws)
  obtain k v where kv: "kv = (k, v)" by (cases kv)
  show ?case
  proof (cases "fanned v \<and> length cs < length (items v)")
    case True
    then show ?thesis using chunk_kwarg_fail[of v cs k] kv by simp
  next
    case False
    then have fit: "fanned v \<longrightarrow> length (items v) \<le> length cs" by auto
    from chunk_kwarg_ok[OF fit, of k] obtain cs1 where
      c1: "chunk_kwarg k v cs = Inr cs1" and l1: "length cs1 = length cs" by blast
    from Cons.prems kv fit l1
    have "\<not> list_all (\<lambda>(k, v). fanned v \<longrightarrow> length (items v) \<le> length cs1) kws" by simp
    from Cons.IH[OF this] show ?thesis using c1 kv by simp
  qed
qed

text \<open>
  C8, as amended. The keyword arguments are a dictionary, so their names are distinct. The
  call of lines 282-299 succeeds exactly when no value that is handed out item by item has
  more items than there are series (otherwise it raises IndexError). When it succeeds there is
  one dictionary per series, and for every keyword \<open>k\<close> with value \<open>v\<close> and every series
  \<open>i\<close>: a tuple of ints and floats is stored whole; any other tuple or list is handed out
  item by item, series \<open>i\<close> receiving item \<open>i\<close> (and nothing when there is no such item);
  a value that is not iterable, or a string, is stored unchanged.
\<close>

theorem kwargs_fan_out:
  assumes "distinct (map fst kwargs)"
  shows "(list_all (\<lambda>(k, v). fanned v \<longrightarrow> length (items v) \<le> n) kwargs \<longrightarrow>
           (\<exists>cs. chunk_kwargs n kwargs = Inr cs \<and> length cs = n \<and>
              (\<forall>(k, v) \<in> set kwargs. \<forall>i < n.
                 (numeric_tuple v \<longrightarrow> (cs ! i) k = Some v) \<and>
                 (fanned v \<longrightarrow>
                    (cs ! i) k = (if i < length (items v) then Some (items v ! i) else None)) \<and>
                 (\<not> iterable_not_string v \<longrightarrow> (cs ! i) k = Some v)))) \<and>
         (\<not> list_all (\<lambda>(k, v). fanned v \<longrightarrow> length (items v) \<le> n) kwargs \<longrightarrow>
            chunk_kwargs n kwargs = Inl IndexError)"
proof (intro conjI impI)
  assume fit: "list_all (\<lambda>(k, v). fanned v \<longrightarrow> length (items v) \<le> n) kwargs"
  then have fit': "list_all (\<lambda>(k, v). fanned v \<longrightarrow> length (items v) \<le> length (replicate n (Map.empty :: kwdict))) kwargs"
    by simp
  from chunk_loop_ok[OF assms fit'] obtain cs where
    c: "chunk_loop kwargs (replicate n Map.empty) = Inr cs" and
    l0: "length cs = length (replicate n (Map.empty :: kwdict))" and
    e0: "\<forall>j < length (replicate n (Map.empty :: kwdict)). \<forall>k'. (cs ! j) k' =
        (case map_of kwargs k' of None \<Rightarrow> (replicate n (Map.empty :: kwdict) ! j) k'
         | Some v \<Rightarrow> (case kw_entry v j of Some x \<Rightarrow> Some x
                     | None \<Rightarrow> (replicate n (Map.empty :: kwdict) ! j) k'))"
    by blast
  from l0 have l: "length cs = n" by simp
  have e: "(cs ! j) k' =
        (case map_of kwargs k' of None \<Rightarrow> None
         | Some v \<Rightarrow> (case kw_entry v j of Some x \<Rightarrow> Some x | None \<Rightarrow> None))"
    if "j < n" for j k'
    using e0 that by (auto split: option.splits)
  have "\<forall>(k, v) \<in> set kwargs. \<forall>i < n.
                 (numeric_tuple v \<longrightarrow> (cs ! i) k = Some v) \<and>
                 (fanned v \<longrightarrow>
                    (cs ! i) k = (if i < length (items v) then Some (items v ! i) else None)) \<and>
                 (\<not> iterable_not_string v \<longrightarrow> (cs ! i) k = Some v)"
  proof (intro ballI allI impI, clarify)
    fix k v i assume kv: "(k, v) \<in> set kwargs" and i: "i < n"
    from kv assms have m: "map_of kwargs k = Some v" by simp
    have "(cs ! i) k = kw_entry v i" using e[OF i, of k] m by (simp split: option.splits)
    then show "(numeric_tuple v \<longrightarrow> (cs ! i) k = Some v) \<and>
                 (fanned v \<longrightarrow>
                    (cs ! i) k = (if i < length (items v) then Some (items v ! i) else None)) \<and>
                 (\<not> iterable_not_string v \<longrightarrow> (cs ! i) k = Some v)"
      by (auto simp: kw_entry_def fanned_def)
  qed
  then show "\<exists>cs. chunk_kwargs n kwargs = Inr cs \<and> length cs = n \<and>
              (\<forall>(k, v) \<in> set kwargs. \<forall>i < n.
                 (numeric_tuple v \<longrightarrow> (cs ! i) k = Some v) \<and>
                 (fanned v \<longrightarrow>
                    (cs ! i) k = (if i < length (items v) then Some (items v ! i) else None)) \<and>
                 (\<not> iterable_not_string v \<longrightarrow> (cs ! i) k = Some v))"
    using c l by (simp add: chunk_kwargs_def)
next
  assume "\<not> list_all (\<lambda>(k, v). fanned v \<longrightarrow> length (items v) \<le> n) kwargs"
  then have "\<not> list_all (\<lambda>(k, v). fanned v \<longrightarrow> length (items v) \<le> length (replicate n (Map.empty :: kwdict))) kwargs"
    by simp
  from chunk_loop_fail[OF this] show "chunk_kwargs n kwargs = Inl IndexError"
    by (simp add: chunk_kwargs_def)
qed

theorem kwargs_fan_out_witness:
  "distinct (map fst [(''color'', PTuple [PFloat 0.1, PInt 0, PInt 1]),
                      (''ls'', PList [PStr ''-'', PStr ''--'']), (''lw'', PInt 2)]) \<and>
   (case chunk_kwargs 2 [(''color'', PTuple [PFloat 0.1, PInt 0, PInt 1]),
                         (''ls'', PList [PStr ''-'', PStr ''--'']), (''lw'', PInt 2)] of
      Inl e \<Rightarrow> False
    | Inr cs \<Rightarrow>
        (cs ! 0) ''color'' = Some (PTuple [PFloat 0.1, PInt 0, PInt 1]) \<and>
        (cs ! 1) ''color'' = Some (PTuple [PFloat 0.1, PInt 0, PInt 1]) \<and>
        (cs ! 0) ''ls'' = Some (PStr ''-'') \<and>
        (cs ! 1) ''ls'' = Some (PStr ''--'') \<and>
        (cs ! 0) ''lw'' = Some (PInt 2) \<and>
        (cs ! 1) ''lw'' = Some (PInt 2))"
  using kwargs_fan_out
    [of "[(''color'', PTuple [PFloat 0.1, PInt 0, PInt 1]),
          (''ls'', PList [PStr ''-'', PStr ''--'']), (''lw'', PInt 2)]" 2]
  by (simp add: chunk_kwargs_def chunk_kwarg_def numeral_2_eq_2)

text \<open>
  The claim C8 as it was stated fails where the number of items is not the number of
  series. A list of three colours with two series is not handed out: the fan-out raises
  IndexError and the call draws nothing. A list of one colour with two series gives the
  second series no colour at all.
\<close>

theorem kwargs_fan_out_counterexample:
  "fanned (PList [PStr ''r'', PStr ''g'', PStr ''b'']) \<and>
   chunk_kwargs 2 [(''color'', PList [PStr ''r'', PStr ''g'', PStr ''b''])] =
     Inl IndexError \<and>
   histplot
     \<lparr>a_hists = [\<lparr>h_values = [1, 2], h_variances = None, h_flow = NoFlow,
                  h_values_flow = [], h_variances_flow = [],
                  h_add = (+), h_var_add = (+)\<rparr>,
                 \<lparr>h_values = [3, 4], h_variances = None, h_flow = NoFlow,
                  h_values_flow = [], h_variances_flow = [],
                  h_add = (+), h_var_add = (+)\<rparr>],
      a_final_bins = [0, 1, 2], a_ax_ok = True, a_yerr = YNone, a_w2 = None,
      a_w2method = None, a_stack = False, a_density = False, a_binwnorm = None,
      a_histtype = ''step'', a_label = LNone, a_sort = None, a_flow = Some ''hint'',
      a_kwargs = [(''color'', PList [PStr ''r'', PStr ''g'', PStr ''b''])],
      a_argsort = stable_argsorts\<rparr> = ([], Some IndexError) \<and>
   fanned (PList [PStr ''r'']) \<and>
   (case chunk_kwargs 2 [(''color'', PList [PStr ''r''])] of
      Inl e \<Rightarrow> False
    | Inr cs \<Rightarrow> (cs ! 0) ''color'' = Some (PStr ''r'') \<and> (cs ! 1) ''color'' = None)"
  by (simp add: histplot_def stage_normalised_def stage_series_def stage_plottables_def
      check_args_def allowed_histtype_def allowed_flow_def set_plottable_def get_flow_def
      plottable_of_flow_def apply_w2_def fanned_def
      chunk_kwargs_def chunk_kwarg_def numeral_2_eq_2)

section \<open>Properties: rejected calls of histplot\<close>

lemma histplot_error_before_drawing:
  "stage_normalised args = Inl e \<Longrightarrow> histplot args = ([], Some e)"
  by (simp add: histplot_def)

lemma stage_plottables_check:
  "check_args args = Inl e \<Longrightarrow> stage_plottables args = Inl e"
  by (simp add: stage_plottables_def)

lemma stage_series_error:
  "stage_plottables args = Inl e \<Longrightarrow> stage_series args = Inl e"
  by (simp add: stage_series_def)

lemma stage_normalised_error:
  "stage_series args = Inl e \<Longrightarrow> stage_normalised args = Inl e"
  by (simp add: stage_normalised_def)

lemma w2_and_yerr:
  assumes "a_w2 args \<noteq> None" and "a_yerr args \<noteq> YNone"
  shows "\<exists>e. stage_series args = Inl e"
    and "stage_plottables args = Inr ps \<Longrightarrow>
         stage_series args = Inl (ValueError ''Can only supply errors or w2'')"
  using assms by (cases "stage_plottables args"; simp add: stage_series_def)+

lemma density_and_binwnorm:
  assumes "a_density args" and "a_binwnorm args \<noteq> None"
  shows "\<exists>e. stage_normalised args = Inl e"
    and "stage_series args = Inr s \<Longrightarrow>
         stage_normalised args = Inl (ValueError ''Can only set density or binwnorm.'')"
  using assms
  by (cases "stage_series args"; auto simp: stage_normalised_def normalise_def split: prod.splits)+

text \<open>
  C5. A call with \<^verbatim>\<open>density=True\<close> and a \<^verbatim>\<open>binwnorm\<close>, or with both \<^verbatim>\<open>w2\<close> and \<^verbatim>\<open>yerr\<close>
  given, ends in an exception and issues nothing to the axes. If the call gets as far as
  the check of the pair (no earlier step has raised), the exception is the ValueError
  that names the two options.
\<close>

theorem exclusive_options_rejected:
  assumes "(a_density args \<and> a_binwnorm args \<noteq> None) \<or>
           (a_w2 args \<noteq> None \<and> a_yerr args \<noteq> YNone)"
  shows "(\<exists>e. histplot args = ([], Some e)) \<and>
         (a_w2 args \<noteq> None \<and> a_yerr args \<noteq> YNone \<longrightarrow>
            (\<forall>ps. stage_plottables args = Inr ps \<longrightarrow>
               histplot args = ([], Some (ValueError ''Can only supply errors or w2'')))) \<and>
         (a_density args \<and> a_binwnorm args \<noteq> None \<longrightarrow>
            (\<forall>s. stage_series args = Inr s \<longrightarrow>
               histplot args = ([], Some (ValueError ''Can only set density or binwnorm.''))))"
proof (intro conjI impI allI)
  show "\<exists>e. histplot args = ([], Some e)"
  proof -
    have "\<exists>e. stage_normalised args = Inl e"
    proof (cases "a_w2 args \<noteq> None \<and> a_yerr args \<noteq> YNone")
      case True
      then obtain e where "stage_series args = Inl e" using w2_and_yerr(1) by blast
      then show ?thesis using stage_normalised_error by blast
    next
      case False
      with assms show ?thesis using density_and_binwnorm(1) by blast
    qed
    then show ?thesis using histplot_error_before_drawing by blast
  qed
next
  fix ps
  assume "a_w2 args \<noteq> None \<and> a_yerr args \<noteq> YNone" and "stage_plottables args = Inr ps"
  then have "stage_series args = Inl (ValueError ''Can only supply errors or w2'')"
    using w2_and_yerr(2) by blast
  then show "histplot args = ([], Some (ValueError ''Can only supply errors or w2''))"
    by (simp add: stage_normalised_error histplot_error_before_drawing)
next
  fix s
  assume "a_density args \<and> a_binwnorm args \<noteq> None" and "stage_series args = Inr s"
  then have "stage_normalised args = Inl (ValueError ''Can only set density or binwnorm.'')"
    using density_and_binwnorm(2) by blast
  then show "histplot args = ([], Some (ValueError ''Can only set density or binwnorm.''))"
    by (simp add: histplot_error_before_drawing)
qed

theorem exclusive_options_rejected_witness:
  "histplot
     \<lparr>a_hists = [\<lparr>h_values = [1, 2], h_variances = None, h_flow = NoFlow,
                  h_values_flow = [], h_variances_flow = [],
                  h_add = (+), h_var_add = (+)\<rparr>],
      a_final_bins = [0, 1, 2], a_ax_ok = True, a_yerr = YNone, a_w2 = None,
      a_w2method = None, a_stack = False, a_density = True, a_binwnorm = Some 1,
      a_histtype = ''step'', a_label = LNone, a_sort = None, a_flow = Some ''hint'',
      a_kwargs = [], a_argsort = stable_argsorts\<rparr> = ([], Some (ValueError ''Can only set density or binwnorm.'')) \<and>
   histplot
     \<lparr>a_hists = [\<lparr>h_values = [1, 2], h_variances = None, h_flow = NoFlow,
                  h_values_flow = [], h_variances_flow = [],
                  h_add = (+), h_var_add = (+)\<rparr>],
      a_final_bins = [0, 1, 2], a_ax_ok = True, a_yerr = YBool True,
      a_w2 = Some \<lparr>nd_shape = [2], nd_data = [1, 2]\<rparr>,
      a_w2method = None, a_stack = False, a_density = False, a_binwnorm = None,
      a_histtype = ''step'', a_label = LNone, a_sort = None, a_flow = Some ''hint'',
      a_kwargs = [], a_argsort = stable_argsorts\<rparr> = ([], Some (ValueError ''Can only supply errors or w2''))"
  using exclusive_options_rejected
    [of "\<lparr>a_hists = [\<lparr>h_values = [1, 2], h_variances = None, h_flow = NoFlow,
                  h_values_flow = [], h_variances_flow = [],
                  h_add = (+), h_var_add = (+)\<rparr>],
      a_final_bins = [0, 1, 2], a_ax_ok = True, a_yerr = YNone, a_w2 = None,
      a_w2method = None, a_stack = False, a_density = True, a_binwnorm = Some 1,
      a_histtype = ''step'', a_label = LNone, a_sort = None, a_flow = Some ''hint'',
      a_kwargs = [], a_argsort = stable_argsorts\<rparr>"]
  by (simp add: histplot_def stage_normalised_def stage_series_def stage_plottables_def
      check_args_def allowed_histtype_def allowed_flow_def set_plottable_def get_flow_def
      plottable_of_flow_def apply_w2_def np_reshape2_def np_reshape_def rows_of_def
      chunk_kwargs_def apply_yerr_def resolve_yerr_def init_yerr_def sort_series_def
      normalise_def)

text \<open>
  What \<^verbatim>\<open>histplot\<close> does with its selectors. A \<^verbatim>\<open>histtype\<close> outside the four allowed
  names, or a \<^verbatim>\<open>flow\<close> that is neither None nor one of the four allowed names, ends the
  call with an exception before anything is issued to the axes; when the \<^verbatim>\<open>ax\<close> argument
  is valid, the exception is the AssertionError of lines 160-166.
\<close>

theorem histplot_rejects_invalid_selectors:
  assumes "a_histtype args \<notin> set allowed_histtype \<or>
           (\<exists>f. a_flow args = Some f \<and> f \<notin> set allowed_flow)"
  shows "(\<exists>e. histplot args = ([], Some e)) \<and>
         (a_ax_ok args \<longrightarrow> (\<exists>msg. histplot args = ([], Some (AssertionError msg))))"
proof -
  have "\<exists>e. check_args args = Inl e \<and> (a_ax_ok args \<longrightarrow> (\<exists>msg. e = AssertionError msg))"
    using assms by (auto simp: check_args_def)
  then obtain e where c: "check_args args = Inl e"
    and m: "a_ax_ok args \<longrightarrow> (\<exists>msg. e = AssertionError msg)" by blast
  from c have "histplot args = ([], Some e)"
    by (simp add: stage_plottables_check stage_series_error stage_normalised_error
        histplot_error_before_drawing)
  with m show ?thesis by auto
qed

theorem histplot_rejects_invalid_selectors_witness:
  "''bar'' \<notin> set allowed_histtype \<and>
   histplot
     \<lparr>a_hists = [\<lparr>h_values = [1, 2], h_variances = None, h_flow = NoFlow,
                  h_values_flow = [], h_variances_flow = [],
                  h_add = (+), h_var_add = (+)\<rparr>],
      a_final_bins = [0, 1, 2], a_ax_ok = True, a_yerr = YNone, a_w2 = None,
      a_w2method = None, a_stack = False, a_density = False, a_binwnorm = None,
      a_histtype = ''bar'', a_label = LNone, a_sort = None, a_flow = Some ''hint'',
      a_kwargs = [], a_argsort = stable_argsorts\<rparr> =
     ([], Some (AssertionError ''Select histtype from: [fill, step, errorbar, band]''))"
  using histplot_rejects_invalid_selectors
    [of "\<lparr>a_hists = [\<lparr>h_values = [1, 2], h_variances = None, h_flow = NoFlow,
                  h_values_flow = [], h_variances_flow = [],
                  h_add = (+), h_var_add = (+)\<rparr>],
      a_final_bins = [0, 1, 2], a_ax_ok = True, a_yerr = YNone, a_w2 = None,
      a_w2method = None, a_stack = False, a_density = False, a_binwnorm = None,
      a_histtype = ''bar'', a_label = LNone, a_sort = None, a_flow = Some ''hint'',
      a_kwargs = [], a_argsort = stable_argsorts\<rparr>"]
  by (simp add: histplot_def stage_normalised_def stage_series_def stage_plottables_def
      check_args_def allowed_histtype_def allowed_flow_def)

text \<open>
  C4. \<^verbatim>\<open>hist2dplot\<close> does not do what \<^verbatim>\<open>histplot\<close> does: it has no check of its \<^verbatim>\<open>flow\<close>
  argument, although its docstring lists the same four names. Called with a selector that
  is none of them, on a histogram whose values take the flow argument, it draws the grid
  and raises nothing.
\<close>

theorem hist2dplot_accepts_unknown_flow:
  "''bogus'' \<notin> set allowed_flow \<and>
   hist2dplot
     \<lparr>b_hist = \<lparr>h2_values = [[5, 6], [7, 8]], h2_xbins = [0, 1, 2], h2_ybins = [0, 10, 20],
                h2_flow_arg = True,
                h2_values_flow = [[0, 0, 0, 0], [0, 5, 6, 0], [0, 7, 8, 0], [0, 0, 0, 0]],
                h2_padded = [[0, 0, 0, 0], [0, 5, 6, 0], [0, 7, 8, 0], [0, 0, 0, 0]]\<rparr>,
      b_ax_ok = True, b_has_figure = True, b_flow = Some ''bogus'',
      b_cmin = None, b_cmax = None\<rparr> =
     ([Pcolormesh [0, 1, 2] [0, 10, 20] [[Some 5, Some 7], [Some 6, Some 8]]], None)"
  by (simp add: allowed_flow_def hist2dplot_def flow2d_def draw_hints_def rendered_def
      mask_cell_def)

section \<open>Properties: the layout loops\<close>

lemma rescale_power:
  "(rescale sf ax)\<lparr>ylim_hi := ylim_hi (rescale sf ax) * sf ^ k\<rparr> =
   ax\<lparr>ylim_hi := ylim_hi ax * sf ^ Suc k\<rparr>"
  by (simp add: rescale_def mult.assoc)

lemma yscale_loop_bound:
  "m \<le> 11 \<Longrightarrow>
   \<exists>k \<le> 12 - m. fst (yscale_loop ov otol soft_fail what sf m ax lg) =
      ax\<lparr>ylim_hi := ylim_hi ax * sf ^ k\<rparr>"
proof (induction ov otol soft_fail what sf m ax lg rule: yscale_loop.induct)
  case (1 ov otol soft_fail what sf max_scales ax lg)
  let ?lg1 = "lg @ [Debug (ov ax), Info ''Scaling y-axis by 5% to fit legend'']"
  let ?ax1 = "rescale sf ax"
  have one: "?ax1 = ax\<lparr>ylim_hi := ylim_hi ax * sf ^ 1\<rparr>" by (simp add: rescale_def)
  show ?case
  proof (cases "has_figure ax \<and> real (ov ax) > otol")
    case False
    then have "fst (yscale_loop ov otol soft_fail what sf max_scales ax lg) =
        ax\<lparr>ylim_hi := ylim_hi ax * sf ^ 0\<rparr>"
      by (auto simp: yscale_loop.simps[of ov otol soft_fail what sf max_scales ax lg])
    then show ?thesis by blast
  next
    case True
    then have fig: "\<not> \<not> has_figure ax" and over: "real (ov ax) > otol" by simp_all
    show ?thesis
    proof (cases "has_figure ?ax1 \<and> \<not> max_scales > 10")
      case False
      then have "fst (yscale_loop ov otol soft_fail what sf max_scales ax lg) = ?ax1"
        using over fig
        by (auto simp: yscale_loop.simps[of ov otol soft_fail what sf max_scales ax lg] Let_def)
      with one have "fst (yscale_loop ov otol soft_fail what sf max_scales ax lg) =
          ax\<lparr>ylim_hi := ylim_hi ax * sf ^ 1\<rparr>" by simp
      moreover have "(1::nat) \<le> 12 - max_scales" using "1.prems" by simp
      ultimately show ?thesis by blast
    next
      case True
      then have m: "max_scales + 1 \<le> 11" by simp
      from "1.IH"[OF fig over refl refl _ _ m] True obtain k where
        k: "k \<le> 12 - (max_scales + 1)" and
        e: "fst (yscale_loop ov otol soft_fail what sf (max_scales + 1) ?ax1 ?lg1) =
            ?ax1\<lparr>ylim_hi := ylim_hi ?ax1 * sf ^ k\<rparr>"
        by auto
      have "yscale_loop ov otol soft_fail what sf max_scales ax lg =
            yscale_loop ov otol soft_fail what sf (max_scales + 1) ?ax1 ?lg1"
        using over fig True
        by (simp add: yscale_loop.simps[of ov otol soft_fail what sf max_scales ax lg] Let_def)
      with e have "fst (yscale_loop ov otol soft_fail what sf max_scales ax lg) =
            ax\<lparr>ylim_hi := ylim_hi ax * sf ^ Suc k\<rparr>"
        by (simp add: rescale_power)
      moreover have "Suc k \<le> 12 - max_scales" using k m by simp
      ultimately show ?thesis by blast
    qed
  qed
qed

lemma yscale_loop_cap:
  "m \<le> 11 \<Longrightarrow> has_figure ax \<Longrightarrow>
   (\<forall>k \<le> 11 - m. real (ov (ax\<lparr>ylim_hi := ylim_hi ax * sf ^ k\<rparr>)) > otol) \<Longrightarrow>
   \<exists>lg'. yscale_loop ov otol soft_fail what sf m ax lg =
      (ax\<lparr>ylim_hi := ylim_hi ax * sf ^ (12 - m)\<rparr>, lg',
       if soft_fail then None
       else Some (RuntimeError (''Could not fit '' @ what @
              '' in 10 iterations, return anyway by passing soft_fail=True.''))) \<and>
      (soft_fail \<longrightarrow> lg' \<noteq> [] \<and>
         last lg' = Warning (''Could not fit '' @ what @ '' in 10 iterations''))"
proof (induction ov otol soft_fail what sf m ax lg rule: yscale_loop.induct)
  case (1 ov otol soft_fail what sf max_scales ax lg)
  let ?lg1 = "lg @ [Debug (ov ax), Info ''Scaling y-axis by 5% to fit legend'']"
  let ?ax1 = "rescale sf ax"
  have fig0: "has_figure ax" using "1.prems"(2) .
  have fig0': "\<not> \<not> has_figure ax" using fig0 by simp
  have fig: "has_figure ?ax1" using "1.prems"(2) by (simp add: rescale_def)
  have "real (ov (ax\<lparr>ylim_hi := ylim_hi ax * sf ^ 0\<rparr>)) > otol"
    using "1.prems"(3) by blast
  then have over: "real (ov ax) > otol" by simp
  show ?case
  proof (cases "max_scales > 10")
    case True
    with "1.prems"(1) have m: "max_scales = 11" by simp
    have "?ax1 = ax\<lparr>ylim_hi := ylim_hi ax * sf ^ (12 - max_scales)\<rparr>"
      using m by (simp add: rescale_def)
    then show ?thesis
      using over fig fig0 True
      by (simp add: yscale_loop.simps[of ov otol soft_fail what sf max_scales ax lg] Let_def)
  next
    case False
    then have m: "max_scales + 1 \<le> 11" by simp
    have nxt: "\<forall>k \<le> 11 - (max_scales + 1).
        real (ov (?ax1\<lparr>ylim_hi := ylim_hi ?ax1 * sf ^ k\<rparr>)) > otol"
    proof (intro allI impI)
      fix k assume "k \<le> 11 - (max_scales + 1)"
      then have "Suc k \<le> 11 - max_scales" using m by simp
      then have "real (ov (ax\<lparr>ylim_hi := ylim_hi ax * sf ^ Suc k\<rparr>)) > otol"
        using "1.prems"(3) by blast
      then show "real (ov (?ax1\<lparr>ylim_hi := ylim_hi ?ax1 * sf ^ k\<rparr>)) > otol"
        by (simp only: rescale_power)
    qed
    have fig': "\<not> \<not> has_figure ?ax1" using fig by simp
    from "1.IH"[OF fig0' over refl refl fig' False m fig nxt] obtain lg' where
      e: "yscale_loop ov otol soft_fail what sf (max_scales + 1) ?ax1 ?lg1 =
        (?ax1\<lparr>ylim_hi := ylim_hi ?ax1 * sf ^ (12 - (max_scales + 1))\<rparr>, lg',
         if soft_fail then None
         else Some (RuntimeError (''Could not fit '' @ what @
                '' in 10 iterations, return anyway by passing soft_fail=True.'')))" and
      w: "soft_fail \<longrightarrow> lg' \<noteq> [] \<and>
         last lg' = Warning (''Could not fit '' @ what @ '' in 10 iterations'')"
      by blast
    have step: "yscale_loop ov otol soft_fail what sf max_scales ax lg =
          yscale_loop ov otol soft_fail what sf (max_scales + 1) ?ax1 ?lg1"
      using over fig fig0 False
      by (simp add: yscale_loop.simps[of ov otol soft_fail what sf max_scales ax lg] Let_def)
    have pw: "Suc (12 - (max_scales + 1)) = 12 - max_scales" using m by simp
    have "?ax1\<lparr>ylim_hi := ylim_hi ?ax1 * sf ^ (12 - (max_scales + 1))\<rparr> =
          ax\<lparr>ylim_hi := ylim_hi ax * sf ^ (12 - max_scales)\<rparr>"
      by (simp only: rescale_power pw)
    with e step w show ?thesis by simp
  qed
qed

lemma scale_factor_log: "1.05 < (10::real) powr 1.05"
proof -
  have "(10::real) powr 1 \<le> 10 powr 1.05" by (rule powr_mono) simp_all
  then show ?thesis by simp
qed

text \<open>
  C9. Both loops multiply the upper y limit by the scale factor once per iteration and
  leave the lower limit alone, and they do so at most 12 times, whatever the overlap
  function is. The factor is 1.05 on a linear axis and the larger 10^1.05 on a logarithmic
  one. If the axes belong to a figure and the overlap exceeds the tolerance at each of the
  12 tests of the loop condition, then with \<^verbatim>\<open>soft_fail=False\<close> the call raises the
  RuntimeError of lines 1052 and 1101, and with \<^verbatim>\<open>soft_fail=True\<close> it returns the axes as
  rescaled 12 times, without an exception, after logging the warning.
\<close>

theorem yscale_loops_bounded:
  "(\<exists>k \<le> 12. fst (yscale_legend ov ax otol soft_fail) =
       ax\<lparr>ylim_hi := ylim_hi ax * scale_factor ax ^ k\<rparr>) \<and>
   (\<exists>k \<le> 12. fst (yscale_anchored_text ov ax otol soft_fail) =
       ax\<lparr>ylim_hi := ylim_hi ax * scale_factor ax ^ k\<rparr>) \<and>
   1 < scale_factor (ax\<lparr>yscale_log := False\<rparr>) \<and>
   scale_factor (ax\<lparr>yscale_log := False\<rparr>) < scale_factor (ax\<lparr>yscale_log := True\<rparr>) \<and>
   (has_figure ax \<and>
    (\<forall>k \<le> 11. real (ov (ax\<lparr>ylim_hi := ylim_hi ax * scale_factor ax ^ k\<rparr>)) > otol_of otol) \<longrightarrow>
      snd (snd (yscale_legend ov ax otol False)) =
        Some (RuntimeError
          ''Could not fit legend in 10 iterations, return anyway by passing soft_fail=True.'') \<and>
      snd (snd (yscale_anchored_text ov ax otol False)) =
        Some (RuntimeError
          ''Could not fit AnchoredText in 10 iterations, return anyway by passing soft_fail=True.'') \<and>
      (\<exists>lg. yscale_legend ov ax otol True =
          (ax\<lparr>ylim_hi := ylim_hi ax * scale_factor ax ^ 12\<rparr>, lg, None) \<and>
          lg \<noteq> [] \<and> last lg = Warning ''Could not fit legend in 10 iterations'') \<and>
      (\<exists>lg. yscale_anchored_text ov ax otol True =
          (ax\<lparr>ylim_hi := ylim_hi ax * scale_factor ax ^ 12\<rparr>, lg, None) \<and>
          lg \<noteq> [] \<and> last lg = Warning ''Could not fit AnchoredText in 10 iterations''))"
proof (intro conjI impI)
  show "\<exists>k \<le> 12. fst (yscale_legend ov ax otol soft_fail) =
       ax\<lparr>ylim_hi := ylim_hi ax * scale_factor ax ^ k\<rparr>"
    using yscale_loop_bound[of 0 ov "otol_of otol" soft_fail "''legend''" "scale_factor ax" ax "[]"]
    by (simp add: yscale_legend_def)
  show "\<exists>k \<le> 12. fst (yscale_anchored_text ov ax otol soft_fail) =
       ax\<lparr>ylim_hi := ylim_hi ax * scale_factor ax ^ k\<rparr>"
    using yscale_loop_bound[of 0 ov "otol_of otol" soft_fail "''AnchoredText''" "scale_factor ax" ax "[]"]
    by (simp add: yscale_anchored_text_def)
  show "1 < scale_factor (ax\<lparr>yscale_log := False\<rparr>)" by (simp add: scale_factor_def)
  show "scale_factor (ax\<lparr>yscale_log := False\<rparr>) < scale_factor (ax\<lparr>yscale_log := True\<rparr>)"
    using scale_factor_log by (simp add: scale_factor_def)
next
  assume h: "has_figure ax \<and>
    (\<forall>k \<le> 11. real (ov (ax\<lparr>ylim_hi := ylim_hi ax * scale_factor ax ^ k\<rparr>)) > otol_of otol)"
  then have fig: "has_figure ax" and
    ov: "\<forall>k \<le> 11 - 0. real (ov (ax\<lparr>ylim_hi := ylim_hi ax * scale_factor ax ^ k\<rparr>)) > otol_of otol"
    by simp_all
  have cap: "\<exists>lg'. yscale_loop ov (otol_of otol) sfl what (scale_factor ax) 0 ax [] =
      (ax\<lparr>ylim_hi := ylim_hi ax * scale_factor ax ^ 12\<rparr>, lg',
       if sfl then None
       else Some (RuntimeError (''Could not fit '' @ what @
              '' in 10 iterations, return anyway by passing soft_fail=True.''))) \<and>
      (sfl \<longrightarrow> lg' \<noteq> [] \<and>
         last lg' = Warning (''Could not fit '' @ what @ '' in 10 iterations''))" for sfl what
    using yscale_loop_cap[where m = 0 and ax = ax and ov = ov and sf = "scale_factor ax"
        and otol = "otol_of otol" and soft_fail = sfl and what = what and lg = "[]"] fig ov
    by simp
  show "snd (snd (yscale_legend ov ax otol False)) =
        Some (RuntimeError
          ''Could not fit legend in 10 iterations, return anyway by passing soft_fail=True.'')"
    using cap[of False "''legend''"] by (auto simp: yscale_legend_def)
  show "snd (snd (yscale_anchored_text ov ax otol False)) =
        Some (RuntimeError
          ''Could not fit AnchoredText in 10 iterations, return anyway by passing soft_fail=True.'')"
    using cap[of False "''AnchoredText''"] by (auto simp: yscale_anchored_text_def)
  show "\<exists>lg. yscale_legend ov ax otol True =
          (ax\<lparr>ylim_hi := ylim_hi ax * scale_factor ax ^ 12\<rparr>, lg, None) \<and>
          lg \<noteq> [] \<and> last lg = Warning ''Could not fit legend in 10 iterations''"
    using cap[of True "''legend''"] by (auto simp: yscale_legend_def)
  show "\<exists>lg. yscale_anchored_text ov ax otol True =
          (ax\<lparr>ylim_hi := ylim_hi ax * scale_factor ax ^ 12\<rparr>, lg, None) \<and>
          lg \<noteq> [] \<and> last lg = Warning ''Could not fit AnchoredText in 10 iterations''"
    using cap[of True "''AnchoredText''"] by (auto simp: yscale_anchored_text_def)
qed

theorem yscale_loops_bounded_witness:
  "has_figure \<lparr>ylim_lo = 0, ylim_hi = 1, yscale_log = False, has_figure = True\<rparr> \<and>
   snd (snd (yscale_legend (\<lambda>ax. 1)
     \<lparr>ylim_lo = 0, ylim_hi = 1, yscale_log = False, has_figure = True\<rparr> None False)) =
     Some (RuntimeError
       ''Could not fit legend in 10 iterations, return anyway by passing soft_fail=True.'') \<and>
   fst (yscale_legend (\<lambda>ax. 1)
     \<lparr>ylim_lo = 0, ylim_hi = 1, yscale_log = False, has_figure = True\<rparr> None True) =
     \<lparr>ylim_lo = 0, ylim_hi = 1.05 ^ 12, yscale_log = False, has_figure = True\<rparr> \<and>
   snd (snd (yscale_legend (\<lambda>ax. 1)
     \<lparr>ylim_lo = 0, ylim_hi = 1, yscale_log = False, has_figure = True\<rparr> None True)) = None"
  using yscale_loops_bounded
    [where ov = "\<lambda>ax. 1" and otol = None and soft_fail = True
       and ax = "\<lparr>ylim_lo = 0, ylim_hi = 1, yscale_log = False, has_figure = True\<rparr>"]
  by (auto simp: otol_of_def scale_factor_def)

section \<open>Properties: sorting the series\<close>

lemma stable_is_argsort: "is_argsort stable_argsort"
  unfolding is_argsort_def stable_argsort_def
  by (auto intro: sorted_sort_key)

lemma is_argsort_facts:
  assumes "is_argsort f"
  shows "distinct (f keys)" and "set (f keys) = {0..<length keys}"
    and "sorted (map (\<lambda>i. keys ! i) (f keys))"
  using assms by (simp_all add: is_argsort_def)

lemma take_order_nat:
  "\<forall>i \<in> set ord. i < length xs \<Longrightarrow> take_order xs (map int ord) = Inr (map (\<lambda>i. xs ! i) ord)"
  by (induction ord) (simp_all add: py_index_def)

lemma split_us_names:
  "split_us ''label'' = [''label'']" "split_us ''label_r'' = [''label'', ''r'']"
  "split_us ''yield'' = [''yield'']" "split_us ''yield_r'' = [''yield'', ''r'']"
  by simp_all

lemma sort_series_by_order:
  assumes "sort_order asort so label ps = Inr (map int ord)"
    and "\<forall>i \<in> set ord. i < n" and "length ps = n" and "length ks = n" and "length lbls = n"
  shows "sort_series asort (Some so) label (ps, ks, lbls) =
     Inr (map (\<lambda>i. ps ! i) ord, map (\<lambda>i. ks ! i) ord, map (\<lambda>i. lbls ! i) ord)"
  using assms by (simp add: sort_series_def take_order_nat)

text \<open>
  What the sorting does when \<^verbatim>\<open>label\<close> is a list with one entry per series, whatever
  \<^verbatim>\<open>np.argsort\<close> does with equal keys. With one plottable, one keyword dictionary and one
  resolved label per series, \<^verbatim>\<open>sort="label"\<close> puts the series in the order given by a
  permutation of their indices along which the labels ascend (as numbers when all of them
  are numbers, as strings otherwise); \<^verbatim>\<open>sort="yield"\<close> does the same with the sums of the
  values, whatever the labels are. The plottables, the keyword dictionaries and the
  labels are rearranged by the same permutation, and the selector with "_r" appended
  gives exactly the reversed lists.
\<close>

lemma sort_series_ascending:
  assumes "is_argsort (argsort_str asort)" and "is_argsort (argsort_num asort)"
    and "length ps = n" and "length ks = n" and "length lbls = n"
  shows "(label = LList ls \<and> length ls = n \<and> ord = argsort_label asort label \<longrightarrow>
            distinct ord \<and> set ord = {0..<n} \<and>
            (if list_all is_number ls then sorted (map (\<lambda>i. num_of (ls ! i)) ord)
             else sorted (map (\<lambda>i. str_of (ls ! i)) ord)) \<and>
            sort_series asort (Some (SortStr ''label'')) label (ps, ks, lbls) =
              Inr (map (\<lambda>i. ps ! i) ord, map (\<lambda>i. ks ! i) ord, map (\<lambda>i. lbls ! i) ord) \<and>
            sort_series asort (Some (SortStr ''label_r'')) label (ps, ks, lbls) =
              Inr (rev (map (\<lambda>i. ps ! i) ord), rev (map (\<lambda>i. ks ! i) ord),
                   rev (map (\<lambda>i. lbls ! i) ord))) \<and>
         (ordy = argsort_num asort (map (\<lambda>h. sum_list (p_values h)) ps) \<longrightarrow>
            distinct ordy \<and> set ordy = {0..<n} \<and>
            sorted (map (\<lambda>i. sum_list (p_values (ps ! i))) ordy) \<and>
            sort_series asort (Some (SortStr ''yield'')) label (ps, ks, lbls) =
              Inr (map (\<lambda>i. ps ! i) ordy, map (\<lambda>i. ks ! i) ordy, map (\<lambda>i. lbls ! i) ordy) \<and>
            sort_series asort (Some (SortStr ''yield_r'')) label (ps, ks, lbls) =
              Inr (rev (map (\<lambda>i. ps ! i) ordy), rev (map (\<lambda>i. ks ! i) ordy),
                   rev (map (\<lambda>i. lbls ! i) ordy)))"
proof (intro conjI impI)
  assume l: "label = LList ls \<and> length ls = n \<and> ord = argsort_label asort label"
  then have len: "length ls = n" and lab: "label = LList ls"
    and ord: "ord = argsort_label asort (LList ls)" by simp_all
  show d: "distinct ord"
    using is_argsort_facts(1)[OF assms(1)] is_argsort_facts(1)[OF assms(2)]
    by (simp add: ord argsort_label_def)
  show s: "set ord = {0..<n}"
    using is_argsort_facts(2)[OF assms(1), of "map str_of ls"]
      is_argsort_facts(2)[OF assms(2), of "map num_of ls"] len
    by (simp add: ord argsort_label_def)
  then have bound: "\<forall>i \<in> set ord. i < n" by simp
  then have bound_r: "\<forall>i \<in> set (rev ord). i < n" by simp
  show "if list_all is_number ls then sorted (map (\<lambda>i. num_of (ls ! i)) ord)
        else sorted (map (\<lambda>i. str_of (ls ! i)) ord)"
  proof (cases "list_all is_number ls")
    case True
    then have o: "ord = argsort_num asort (map num_of ls)" by (simp add: ord argsort_label_def)
    have eq: "map (\<lambda>i. num_of (ls ! i)) ord = map (\<lambda>i. map num_of ls ! i) ord"
      using bound len by (intro map_cong) auto
    have "sorted (map (\<lambda>i. map num_of ls ! i) ord)"
      using is_argsort_facts(3)[OF assms(2), of "map num_of ls"] by (simp only: o)
    then have "sorted (map (\<lambda>i. num_of (ls ! i)) ord)" by (simp only: eq)
    then show ?thesis using True by simp
  next
    case False
    then have o: "ord = argsort_str asort (map str_of ls)" by (simp add: ord argsort_label_def)
    have eq: "map (\<lambda>i. str_of (ls ! i)) ord = map (\<lambda>i. map str_of ls ! i) ord"
      using bound len by (intro map_cong) auto
    have "sorted (map (\<lambda>i. map str_of ls ! i) ord)"
      using is_argsort_facts(3)[OF assms(1), of "map str_of ls"] by (simp only: o)
    then have "sorted (map (\<lambda>i. str_of (ls ! i)) ord)" by (simp only: eq)
    then show ?thesis using False by simp
  qed
  have "sort_order asort (SortStr ''label'') label ps = Inr (map int ord)"
    by (simp add: sort_order_def ord lab del: split_us.simps add: split_us_names)
  from sort_series_by_order[OF this bound assms(3-5)]
  show "sort_series asort (Some (SortStr ''label'')) label (ps, ks, lbls) =
              Inr (map (\<lambda>i. ps ! i) ord, map (\<lambda>i. ks ! i) ord, map (\<lambda>i. lbls ! i) ord)" .
  have "sort_order asort (SortStr ''label_r'') label ps = Inr (map int (rev ord))"
    by (simp add: sort_order_def ord lab del: split_us.simps add: split_us_names)
  from sort_series_by_order[OF this bound_r assms(3-5)]
  show "sort_series asort (Some (SortStr ''label_r'')) label (ps, ks, lbls) =
              Inr (rev (map (\<lambda>i. ps ! i) ord), rev (map (\<lambda>i. ks ! i) ord),
                   rev (map (\<lambda>i. lbls ! i) ord))"
    by (simp add: rev_map)
next
  let ?yields = "map (\<lambda>h. sum_list (p_values h)) ps"
  assume y: "ordy = argsort_num asort ?yields"
  have len: "length ?yields = n" using assms(3) by simp
  show "distinct ordy" using is_argsort_facts(1)[OF assms(2)] by (simp add: y)
  show s: "set ordy = {0..<n}"
    using is_argsort_facts(2)[OF assms(2), of ?yields] len by (simp add: y)
  then have bound: "\<forall>i \<in> set ordy. i < n" by simp
  then have bound_r: "\<forall>i \<in> set (rev ordy). i < n" by simp
  have "map (\<lambda>i. sum_list (p_values (ps ! i))) ordy = map (\<lambda>i. ?yields ! i) ordy"
    using bound assms(3) by (intro map_cong) auto
  then show "sorted (map (\<lambda>i. sum_list (p_values (ps ! i))) ordy)"
    using is_argsort_facts(3)[OF assms(2), of ?yields] y by (simp only:)
  have "sort_order asort (SortStr ''yield'') label ps = Inr (map int ordy)"
    by (simp add: sort_order_def y del: split_us.simps add: split_us_names)
  from sort_series_by_order[OF this bound assms(3-5)]
  show "sort_series asort (Some (SortStr ''yield'')) label (ps, ks, lbls) =
              Inr (map (\<lambda>i. ps ! i) ordy, map (\<lambda>i. ks ! i) ordy, map (\<lambda>i. lbls ! i) ordy)" .
  have "sort_order asort (SortStr ''yield_r'') label ps = Inr (map int (rev ordy))"
    by (simp add: sort_order_def y del: split_us.simps add: split_us_names)
  from sort_series_by_order[OF this bound_r assms(3-5)]
  show "sort_series asort (Some (SortStr ''yield_r'')) label (ps, ks, lbls) =
              Inr (rev (map (\<lambda>i. ps ! i) ordy), rev (map (\<lambda>i. ks ! i) ordy),
                   rev (map (\<lambda>i. lbls ! i) ordy))"
    by (simp add: rev_map)
qed

text \<open>An instance, with distinct labels and distinct yields.\<close>

lemma sort_series_ascending_instance:
  "sort_series stable_argsorts (Some (SortStr ''label''))
     (LList [LabStr ''b'', LabStr ''a''])
     ([Plottable [1] [0, 1] None, Plottable [5] [0, 1] None],
      [Map.empty, [''color'' \<mapsto> PStr ''r'']], [Some ''b'', Some ''a'']) =
     Inr ([Plottable [5] [0, 1] None, Plottable [1] [0, 1] None],
          [[''color'' \<mapsto> PStr ''r''], Map.empty], [Some ''a'', Some ''b'']) \<and>
   sort_series stable_argsorts (Some (SortStr ''yield_r''))
     (LList [LabStr ''b'', LabStr ''a''])
     ([Plottable [1] [0, 1] None, Plottable [5] [0, 1] None],
      [Map.empty, [''color'' \<mapsto> PStr ''r'']], [Some ''b'', Some ''a'']) =
     Inr ([Plottable [5] [0, 1] None, Plottable [1] [0, 1] None],
          [[''color'' \<mapsto> PStr ''r''], Map.empty], [Some ''a'', Some ''b''])"
proof -
  have a: "stable_argsort [''b'', ''a''] = [1, 0]"
    by (simp add: stable_argsort_def upt_rec numeral_2_eq_2)
  have b: "stable_argsort [1, 5 :: real] = [0, 1]"
    by (simp add: stable_argsort_def upt_rec numeral_2_eq_2)
  have s: "is_argsort (argsort_str stable_argsorts)" "is_argsort (argsort_num stable_argsorts)"
    by (simp_all add: stable_argsorts_def stable_is_argsort)
  show ?thesis
    using sort_series_ascending
      [OF s, where n = 2 and label = "LList [LabStr ''b'', LabStr ''a'']"
         and ls = "[LabStr ''b'', LabStr ''a'']"
         and ps = "[Plottable [1] [0, 1] None, Plottable [5] [0, 1] None]"
         and ks = "[Map.empty, [''color'' \<mapsto> PStr ''r'']]"
         and lbls = "[Some ''b'', Some ''a'']"
         and ord = "[1, 0]" and ordy = "[0, 1]"]
    by (simp add: a b Plottable_def argsort_label_def stable_argsorts_def)
qed

text \<open>
  C7. Line 349 sorts the argument \<^verbatim>\<open>label\<close>, not the per-series list \<^verbatim>\<open>_labels\<close> that the
  test beside it names. With a single string as label, shared by the series,
  \<^verbatim>\<open>np.argsort\<close> returns \<^verbatim>\<open>[0]\<close>: of two series \<^verbatim>\<open>sort="label"\<close> keeps the first and drops
  the second without an exception, whatever \<^verbatim>\<open>np.argsort\<close> does with equal keys. The same
  call without \<^verbatim>\<open>sort\<close> draws both series.
\<close>

theorem sort_by_shared_label_drops_series:
  "histplot
     \<lparr>a_hists = [\<lparr>h_values = [1, 2], h_variances = None, h_flow = NoFlow,
                  h_values_flow = [], h_variances_flow = [],
                  h_add = (+), h_var_add = (+)\<rparr>,
                 \<lparr>h_values = [3, 4], h_variances = None, h_flow = NoFlow,
                  h_values_flow = [], h_variances_flow = [],
                  h_add = (+), h_var_add = (+)\<rparr>],
      a_final_bins = [0, 1, 2], a_ax_ok = True, a_yerr = YNone, a_w2 = None,
      a_w2method = None, a_stack = False, a_density = False, a_binwnorm = None,
      a_histtype = ''fill'', a_label = LStr ''MC'', a_sort = Some (SortStr ''label''),
      a_flow = Some ''hint'', a_kwargs = [], a_argsort = asort\<rparr> =
     ([Stairs (Plottable [1, 2] [0, 1, 2] None) (Some ''MC'') True Map.empty], None) \<and>
   histplot
     \<lparr>a_hists = [\<lparr>h_values = [1, 2], h_variances = None, h_flow = NoFlow,
                  h_values_flow = [], h_variances_flow = [],
                  h_add = (+), h_var_add = (+)\<rparr>,
                 \<lparr>h_values = [3, 4], h_variances = None, h_flow = NoFlow,
                  h_values_flow = [], h_variances_flow = [],
                  h_add = (+), h_var_add = (+)\<rparr>],
      a_final_bins = [0, 1, 2], a_ax_ok = True, a_yerr = YNone, a_w2 = None,
      a_w2method = None, a_stack = False, a_density = False, a_binwnorm = None,
      a_histtype = ''fill'', a_label = LStr ''MC'', a_sort = None,
      a_flow = Some ''hint'', a_kwargs = [], a_argsort = asort\<rparr> =
     ([Stairs (Plottable [1, 2] [0, 1, 2] None) (Some ''MC'') True Map.empty,
       Stairs (Plottable [3, 4] [0, 1, 2] None) (Some ''MC'') True Map.empty], None)"
  by (simp add: histplot_def stage_normalised_def stage_series_def stage_plottables_def
      check_args_def allowed_histtype_def allowed_flow_def set_plottable_def get_flow_def
      plottable_of_flow_def apply_w2_def chunk_kwargs_def apply_yerr_def resolve_yerr_def
      init_yerr_def sort_series_def sort_order_def argsort_label_def py_index_def
      resolve_labels_def normalise_def stack_stage_def draw_series_def draw_one_def
      numeral_2_eq_2)

section \<open>Properties: flow bins of hist2dplot\<close>

lemma all_zero_simps:
  "all_zero []" "all_zero (x # xs) = (x = 0 \<and> all_zero xs)"
  "all_zero (xs @ ys) = (all_zero xs \<and> all_zero ys)"
  by (simp_all add: all_zero_def)

lemma all_zero_hd: "all_zero r \<Longrightarrow> r \<noteq> [] \<Longrightarrow> hd r = 0"
  by (cases r) (simp_all add: all_zero_def)

lemma all_zero_last: "all_zero r \<Longrightarrow> r \<noteq> [] \<Longrightarrow> last r = 0"
  by (induction r) (auto simp: all_zero_def)

lemma last_tl2: "2 \<le> length r \<Longrightarrow> last (tl r) = last r"
  by (cases r) auto

lemma tl_not_Nil: "2 \<le> length r \<Longrightarrow> tl r \<noteq> []"
  by (cases r) auto

lemma trim_ends_cases:
  "trim_ends True True = id" "trim_ends False True = tl"
  "trim_ends True False = butlast" "trim_ends False False = butlast \<circ> tl"
  by (auto simp: trim_ends_def fun_eq_iff)

lemma trim_x_eq:
  assumes "2 \<le> length padded"
  shows "trim_x padded pxbins =
     Inr (trim_ends (\<not> all_zero (hd padded)) (\<not> all_zero (last padded)) padded,
          trim_ends (\<not> all_zero (hd padded)) (\<not> all_zero (last padded)) pxbins,
          \<not> all_zero (hd padded), \<not> all_zero (last padded))"
proof -
  from assms have ne: "padded \<noteq> []" and tne: "tl padded \<noteq> []"
    by (auto simp: tl_not_Nil)
  have f: "np_first padded = Inr (hd padded)"
    using ne by (cases padded) (simp_all add: np_first_def)
  have l1: "np_last (tl padded) = Inr (last padded)"
    using tne assms by (simp add: np_last_def last_tl2)
  have l2: "np_last padded = Inr (last padded)"
    using ne by (simp add: np_last_def)
  show ?thesis
    by (simp add: trim_x_def f l1 l2 trim_ends_def)
qed

lemma trim_y_eq:
  assumes "list_all (\<lambda>r. 2 \<le> length r) m"
  shows "trim_y m pybins =
     Inr (map (trim_ends (\<not> all_zero (map hd m)) (\<not> all_zero (map last m))) m,
          trim_ends (\<not> all_zero (map hd m)) (\<not> all_zero (map last m)) pybins,
          \<not> all_zero (map hd m), \<not> all_zero (map last m))"
proof -
  have ne: "\<not> list_ex (\<lambda>r. r = []) m"
    using assms by (auto simp: list_all_iff list_ex_iff)
  have ne': "\<not> list_ex (\<lambda>r. r = []) (map tl m)"
    using assms by (induction m) (auto simp: tl_not_Nil)
  have f: "first_col m = Inr (map hd m)" using ne by (simp add: first_col_def)
  have l1: "last_col (map tl m) = Inr (map last m)"
  proof -
    have "map last (map tl m) = map last m"
      using assms by (induction m) (simp_all add: last_tl2)
    then show ?thesis using ne' by (simp add: last_col_def)
  qed
  have l2: "last_col m = Inr (map last m)" using ne by (simp add: last_col_def)
  show ?thesis
    by (simp add: trim_y_def f l1 l2 trim_ends_cases)
qed

lemma cols_after_trim_x:
  assumes "padded = r0 # mid @ [rN]" and "r0 \<noteq> []" and "rN \<noteq> []"
  shows "all_zero (map hd (trim_ends (\<not> all_zero r0) (\<not> all_zero rN) padded)) =
           all_zero (map hd padded)"
    and "all_zero (map last (trim_ends (\<not> all_zero r0) (\<not> all_zero rN) padded)) =
           all_zero (map last padded)"
  using assms all_zero_hd[of r0] all_zero_hd[of rN] all_zero_last[of r0] all_zero_last[of rN]
  by (auto simp: trim_ends_def all_zero_simps butlast_append)

lemma trim_padded_eq:
  assumes xb: "xbins \<noteq> []" and yb: "ybins \<noteq> []"
    and len: "2 \<le> length padded"
    and rows: "list_all (\<lambda>r. 2 \<le> length r) padded"
  shows "trim_padded xbins ybins padded =
     Inr (map (trim_ends (\<not> all_zero (map hd padded)) (\<not> all_zero (map last padded)))
            (trim_ends (\<not> all_zero (hd padded)) (\<not> all_zero (last padded)) padded),
          trim_ends (\<not> all_zero (hd padded)) (\<not> all_zero (last padded))
            ((hd xbins - (last xbins - hd xbins) * 0.05) # xbins @
             [last xbins + (last xbins - hd xbins) * 0.05]),
          trim_ends (\<not> all_zero (map hd padded)) (\<not> all_zero (map last padded))
            ((hd ybins - (last ybins - hd ybins) * 0.05) # ybins @
             [last ybins + (last ybins - hd ybins) * 0.05]),
          \<lparr>hint_xlo = \<not> all_zero (hd padded), hint_xhi = \<not> all_zero (last padded),
           hint_ylo = \<not> all_zero (map hd padded), hint_yhi = \<not> all_zero (map last padded)\<rparr>)"
proof -
  let ?P2 = "trim_ends (\<not> all_zero (hd padded)) (\<not> all_zero (last padded)) padded"
  from len obtain r0 rest where p0: "padded = r0 # rest" and "rest \<noteq> []"
    by (cases padded) force+
  then obtain mid rN where p: "padded = r0 # mid @ [rN]"
    by (metis append_butlast_last_id)
  from rows p have "2 \<le> length r0" "2 \<le> length rN" by simp_all
  then have ne: "r0 \<noteq> []" "rN \<noteq> []" by auto
  have hl: "hd padded = r0" "last padded = rN" using p by simp_all
  have sub: "set ?P2 \<subseteq> set padded"
    unfolding p by (auto simp: trim_ends_def butlast_append)
  with rows have rows2: "list_all (\<lambda>r. 2 \<le> length r) ?P2"
    by (auto simp: list_all_iff)
  have c: "all_zero (map hd ?P2) = all_zero (map hd padded)"
          "all_zero (map last ?P2) = all_zero (map last padded)"
    using cols_after_trim_x[OF p ne] by (simp_all add: hl)
  have fx: "np_first xbins = Inr (hd xbins)" "np_last xbins = Inr (last xbins)"
    using xb by (cases xbins; simp add: np_first_def np_last_def)+
  have fy: "np_first ybins = Inr (hd ybins)" "np_last ybins = Inr (last ybins)"
    using yb by (cases ybins; simp add: np_first_def np_last_def)+
  show ?thesis
    unfolding trim_padded_def fx fy rbind_Inr Let_def trim_x_eq[OF len] prod.case
      trim_y_eq[OF rows2] c
    by simp
qed

lemma length_trim_ends:
  "2 \<le> length xs \<Longrightarrow>
   length (trim_ends lo hi xs) + (if lo then 0 else 1) + (if hi then 0 else 1) = length xs"
  by (cases xs) (auto simp: trim_ends_def)

text \<open>
  C2, as amended. For a histogram whose \<^verbatim>\<open>values\<close> method takes the \<^verbatim>\<open>flow\<close> argument, with
  a padded array of one flow row and one flow column on every side, on valid axes with a
  figure: under \<^verbatim>\<open>flow="hint"\<close> the grid that is drawn is the unpadded one on the unpadded
  edges, and a hint marker is issued at exactly the sides whose flow row or column is not
  all zero, so none at a side whose flow row or column is all zero. Under \<^verbatim>\<open>flow="show"\<close>
  the grid is the padded array without the outer flow rows and columns that are all zero:
  it has one row (column) more than the unpadded grid for each x (y) side whose flow
  content is not all zero, that row holds the flow values, and the edges get one more
  edge on that side, 5% of the axis range beyond the axis.
\<close>

theorem flow2d_hint_and_show:
  assumes "h2_flow_arg h" and "h2_xbins h \<noteq> []" and "h2_ybins h \<noteq> []"
    and "length (h2_padded h) = length (h2_values h) + 2"
    and "list_all (\<lambda>r. 2 \<le> length r) (h2_padded h)"
    and "xlo = (\<not> all_zero (hd (h2_padded h)))"
    and "xhi = (\<not> all_zero (last (h2_padded h)))"
    and "ylo = (\<not> all_zero (map hd (h2_padded h)))"
    and "yhi = (\<not> all_zero (map last (h2_padded h)))"
    and "xw = (last (h2_xbins h) - hd (h2_xbins h)) * 0.05"
    and "yw = (last (h2_ybins h) - hd (h2_ybins h)) * 0.05"
    and "b_hist args = h" and "b_ax_ok args" and "b_has_figure args"
  shows "hist2dplot (args\<lparr>b_flow := Some ''hint''\<rparr>) =
           (Pcolormesh (h2_xbins h) (h2_ybins h)
              (rendered (b_cmin args) (b_cmax args) (h2_values h)) #
            (if xlo then [HintMarker XLo] else []) @ (if xhi then [HintMarker XHi] else []) @
            (if ylo then [HintMarker YLo] else []) @ (if yhi then [HintMarker YHi] else []),
            None) \<and>
         flow2d h (Some ''show'') =
           Inr \<lparr>g_H = map (trim_ends ylo yhi) (trim_ends xlo xhi (h2_padded h)),
                g_xbins = trim_ends xlo xhi
                  ((hd (h2_xbins h) - xw) # h2_xbins h @ [last (h2_xbins h) + xw]),
                g_ybins = trim_ends ylo yhi
                  ((hd (h2_ybins h) - yw) # h2_ybins h @ [last (h2_ybins h) + yw]),
                g_flow = Some ''show'',
                g_hints = Some \<lparr>hint_xlo = xlo, hint_xhi = xhi, hint_ylo = ylo, hint_yhi = yhi\<rparr>\<rparr> \<and>
         length (trim_ends xlo xhi (h2_padded h)) =
           length (h2_values h) + (if xlo then 1 else 0) + (if xhi then 1 else 0) \<and>
         (\<exists>t e. hist2dplot (args\<lparr>b_flow := Some ''show''\<rparr>) =
            (Pcolormesh
               (trim_ends xlo xhi
                  ((hd (h2_xbins h) - xw) # h2_xbins h @ [last (h2_xbins h) + xw]))
               (trim_ends ylo yhi
                  ((hd (h2_ybins h) - yw) # h2_ybins h @ [last (h2_ybins h) + yw]))
               (rendered (b_cmin args) (b_cmax args)
                  (map (trim_ends ylo yhi) (trim_ends xlo xhi (h2_padded h)))) # t, e))"
proof -
  from assms(4) have len: "2 \<le> length (h2_padded h)" by simp
  note tp = trim_padded_eq[OF assms(2,3) len assms(5)]
  have hint: "flow2d h (Some ''hint'') =
           Inr \<lparr>g_H = h2_values h, g_xbins = h2_xbins h, g_ybins = h2_ybins h,
                g_flow = Some ''hint'',
                g_hints = Some \<lparr>hint_xlo = xlo, hint_xhi = xhi, hint_ylo = ylo, hint_yhi = yhi\<rparr>\<rparr>"
    using assms(1) by (simp add: flow2d_def tp assms(6-11))
  have shw: "flow2d h (Some ''show'') =
           Inr \<lparr>g_H = map (trim_ends ylo yhi) (trim_ends xlo xhi (h2_padded h)),
                g_xbins = trim_ends xlo xhi
                  ((hd (h2_xbins h) - xw) # h2_xbins h @ [last (h2_xbins h) + xw]),
                g_ybins = trim_ends ylo yhi
                  ((hd (h2_ybins h) - yw) # h2_ybins h @ [last (h2_ybins h) + yw]),
                g_flow = Some ''show'',
                g_hints = Some \<lparr>hint_xlo = xlo, hint_xhi = xhi, hint_ylo = ylo, hint_yhi = yhi\<rparr>\<rparr>"
    using assms(1) by (simp add: flow2d_def tp assms(6-11))
  have rows: "length (trim_ends xlo xhi (h2_padded h)) =
           length (h2_values h) + (if xlo then 1 else 0) + (if xhi then 1 else 0)"
    using length_trim_ends[OF len, of xlo xhi] assms(4) by (auto split: if_splits)
  have d1: "hist2dplot (args\<lparr>b_flow := Some ''hint''\<rparr>) =
           (Pcolormesh (h2_xbins h) (h2_ybins h)
              (rendered (b_cmin args) (b_cmax args) (h2_values h)) #
            (if xlo then [HintMarker XLo] else []) @ (if xhi then [HintMarker XHi] else []) @
            (if ylo then [HintMarker YLo] else []) @ (if yhi then [HintMarker YHi] else []),
            None)"
    using assms(12-14) by (simp add: hist2dplot_def hint draw_hints_def hint_markers_def)
  have d2: "\<exists>t e. hist2dplot (args\<lparr>b_flow := Some ''show''\<rparr>) =
            (Pcolormesh
               (trim_ends xlo xhi
                  ((hd (h2_xbins h) - xw) # h2_xbins h @ [last (h2_xbins h) + xw]))
               (trim_ends ylo yhi
                  ((hd (h2_ybins h) - yw) # h2_ybins h @ [last (h2_ybins h) + yw]))
               (rendered (b_cmin args) (b_cmax args)
                  (map (trim_ends ylo yhi) (trim_ends xlo xhi (h2_padded h)))) # t, e)"
    using assms(12-14) by (simp add: hist2dplot_def shw split: prod.splits)
  from d1 shw rows d2 show ?thesis by blast
qed

theorem flow2d_hint_and_show_witness:
  "hist2dplot
     \<lparr>b_hist = \<lparr>h2_values = [[5]], h2_xbins = [0, 1], h2_ybins = [0, 10], h2_flow_arg = True,
                h2_values_flow = [[0, 0, 0], [0, 5, 0], [0, 7, 0]],
                h2_padded = [[0, 0, 0], [0, 5, 0], [0, 7, 0]]\<rparr>,
      b_ax_ok = True, b_has_figure = True, b_flow = Some ''hint'',
      b_cmin = None, b_cmax = None\<rparr> =
     ([Pcolormesh [0, 1] [0, 10] [[Some 5]], HintMarker XHi], None) \<and>
   flow2d \<lparr>h2_values = [[5]], h2_xbins = [0, 1], h2_ybins = [0, 10], h2_flow_arg = True,
           h2_values_flow = [[0, 0, 0], [0, 5, 0], [0, 7, 0]],
           h2_padded = [[0, 0, 0], [0, 5, 0], [0, 7, 0]]\<rparr> (Some ''show'') =
     Inr \<lparr>g_H = [[5], [7]], g_xbins = [0, 1, 1.05], g_ybins = [0, 10],
          g_flow = Some ''show'',
          g_hints = Some \<lparr>hint_xlo = False, hint_xhi = True,
                          hint_ylo = False, hint_yhi = False\<rparr>\<rparr>"
  using flow2d_hint_and_show
    [where h = "\<lparr>h2_values = [[5]], h2_xbins = [0, 1], h2_ybins = [0, 10], h2_flow_arg = True,
                 h2_values_flow = [[0, 0, 0], [0, 5, 0], [0, 7, 0]],
                 h2_padded = [[0, 0, 0], [0, 5, 0], [0, 7, 0]]\<rparr>"
       and xlo = False and xhi = True and ylo = False and yhi = False
       and xw = "0.05" and yw = "0.5"
       and args = "\<lparr>b_hist = \<lparr>h2_values = [[5]], h2_xbins = [0, 1], h2_ybins = [0, 10],
                 h2_flow_arg = True,
                 h2_values_flow = [[0, 0, 0], [0, 5, 0], [0, 7, 0]],
                 h2_padded = [[0, 0, 0], [0, 5, 0], [0, 7, 0]]\<rparr>,
                 b_ax_ok = True, b_has_figure = True, b_flow = Some ''hint'',
                 b_cmin = None, b_cmax = None\<rparr>"]
  by (simp add: all_zero_def trim_ends_def rendered_def mask_cell_def)

text \<open>
  The claim C2 as it was stated fails under \<^verbatim>\<open>flow="hint"\<close>: at the side whose flow row is
  all zero (here the low x side) no hint is issued; the only marker is at the high x side,
  whose flow row holds 7.
\<close>

theorem hint_at_all_zero_edge_counterexample:
  "all_zero (hd [[0, 0, 0], [0, 5, 0], [0, 7, 0]]) \<and>
   hist2dplot
     \<lparr>b_hist = \<lparr>h2_values = [[5]], h2_xbins = [0, 1], h2_ybins = [0, 10], h2_flow_arg = True,
                h2_values_flow = [[0, 0, 0], [0, 5, 0], [0, 7, 0]],
                h2_padded = [[0, 0, 0], [0, 5, 0], [0, 7, 0]]\<rparr>,
      b_ax_ok = True, b_has_figure = True, b_flow = Some ''hint'',
      b_cmin = None, b_cmax = None\<rparr> =
     ([Pcolormesh [0, 1] [0, 10] [[Some 5]], HintMarker XHi], None)"
  by (simp add: hist2dplot_def flow2d_def trim_padded_def trim_x_def trim_y_def
      np_first_def np_last_def first_col_def last_col_def all_zero_def draw_hints_def
      hint_markers_def rendered_def mask_cell_def)

section \<open>Properties: density normalisation\<close>























end
